theory Spec2Isabelle
  imports Complex_Main "HOL-Library.Sublist"
begin

section \<open>PostProcessor: the list conversions of \<open>SolutionData\<close>\<close>

text \<open>
  \<^verbatim>\<open>src/pyaedt/modules/PostProcessor.py\<close>. Python floats are modelled as reals, so
  every statement below is one of exact real arithmetic; rounding is not modelled.
  None of the three methods reads \<^verbatim>\<open>self\<close>, so each is a function of its arguments only.

  \<^verbatim>\<open>return [i*2*math.pi/360 for i in input_list]\<close>
\<close>

definition to_degrees :: "real list \<Rightarrow> real list" where
  "to_degrees input_list = map (\<lambda>i. i * 2 * pi / 360) input_list"

text \<open>\<^verbatim>\<open>return [i*360/(2*math.pi) for i in input_list]\<close>\<close>

definition to_radians :: "real list \<Rightarrow> real list" where
  "to_radians input_list = map (\<lambda>i. i * 360 / (2 * pi)) input_list"

text \<open>
  \<^verbatim>\<open>AEDT_units\<close> is imported from \<^verbatim>\<open>pyaedt/application/Variables.py\<close>, which is not part
  of the sources at hand: the table is a parameter here, a dictionary of dictionaries
  from a quantity name and a unit name to a scale factor. Its entries are taken to be
  numbers; what the product is for an entry of another kind is not modelled.

  \<^verbatim>\<open>
  sol = datalist
  if dataunits in AEDT_units and units in AEDT_units[dataunits]:
      sol = [i * AEDT_units[dataunits][units] for i in datalist]
  return sol
  \<close>
\<close>

type_synonym units_table = "string \<rightharpoonup> (string \<rightharpoonup> real)"

definition convert_list_to_SI ::
  "units_table \<Rightarrow> real list \<Rightarrow> string \<Rightarrow> string \<Rightarrow> real list" where
  "convert_list_to_SI AEDT_units datalist dataunits units =
     (case AEDT_units dataunits of
        None \<Rightarrow> datalist
      | Some row \<Rightarrow>
          (case row units of
             None \<Rightarrow> datalist
           | Some scale \<Rightarrow> map (\<lambda>i. i * scale) datalist))"

text \<open>A two-entry table to run the conversion on.\<close>

definition example_units :: units_table where
  "example_units = [''Length'' \<mapsto> [''mm'' \<mapsto> 1 / 1000, ''meter'' \<mapsto> 1]]"

section \<open>Object3d: fillet and chamfer of \<open>EdgeTypePrimitive\<close>\<close>

text \<open>
  \<^verbatim>\<open>src/pyaedt/modeler/Object3d.py\<close>. A raised Python exception is a value of \<open>py_error\<close>.
\<close>

datatype py_error =
    TypeError
  | AttributeError
  | AssertionError
  | IndexError
  | ImportError
  | FileNotFoundException
  | KeyError
  | NameError

text \<open>
  The values handed to the methods (a radius, a distance, an angle) are Python numbers,
  strings or \<^verbatim>\<open>None\<close>; \<open>truthy\<close> is Python's truth value of one.
\<close>

datatype pyval = PyNone | PyFloat real | PyInt int | PyStr string

fun truthy :: "pyval \<Rightarrow> bool" where
  "truthy PyNone = False"
| "truthy (PyFloat x) = (x \<noteq> 0)"
| "truthy (PyInt n) = (n \<noteq> 0)"
| "truthy (PyStr s) = (s \<noteq> [])"

text \<open>
  The positional argument arrays handed to the editor: nested lists of strings and
  numbers.
\<close>

datatype arg = Str string | Num int | Args "arg list"

text \<open>
  The external editor and design objects (\<^verbatim>\<open>oEditor\<close>, \<^verbatim>\<open>oDesign\<close>) are not Python code:
  they are a parameter, a record of operations over a design state \<open>'d\<close> of the engine.
\<close>

record 'd engine =
  Fillet :: "arg \<Rightarrow> arg \<Rightarrow> 'd \<Rightarrow> 'd"
  Chamfer :: "arg \<Rightarrow> arg \<Rightarrow> 'd \<Rightarrow> 'd"
  GetObjectsInGroup :: "string \<Rightarrow> 'd \<Rightarrow> string list"
  Undo :: "'d \<Rightarrow> 'd"

text \<open>
  What the wrapper can reach outside itself: the engine's design state, the calls made
  on the editor and the design in the order they were made, and the error messages
  handed to the messenger in the order they were added.
\<close>

datatype call =
    CallFillet arg arg
  | CallChamfer arg arg
  | CallGetObjectsInGroup string
  | CallUndo

record 'd aedt =
  design :: 'd
  calls :: "call list"
  error_messages :: "string list"

definition add_error_message :: "string \<Rightarrow> 'd aedt \<Rightarrow> 'd aedt" where
  "add_error_message msg st = st\<lparr>error_messages := error_messages st @ [msg]\<rparr>"

definition editor_Fillet :: "'d engine \<Rightarrow> arg \<Rightarrow> arg \<Rightarrow> 'd aedt \<Rightarrow> 'd aedt" where
  "editor_Fillet eng a1 a2 st =
     st\<lparr>design := Fillet eng a1 a2 (design st), calls := calls st @ [CallFillet a1 a2]\<rparr>"

definition editor_Chamfer :: "'d engine \<Rightarrow> arg \<Rightarrow> arg \<Rightarrow> 'd aedt \<Rightarrow> 'd aedt" where
  "editor_Chamfer eng a1 a2 st =
     st\<lparr>design := Chamfer eng a1 a2 (design st), calls := calls st @ [CallChamfer a1 a2]\<rparr>"

definition editor_GetObjectsInGroup ::
  "'d engine \<Rightarrow> string \<Rightarrow> 'd aedt \<Rightarrow> string list \<times> 'd aedt" where
  "editor_GetObjectsInGroup eng g st =
     (GetObjectsInGroup eng g (design st), st\<lparr>calls := calls st @ [CallGetObjectsInGroup g]\<rparr>)"

definition odesign_Undo :: "'d engine \<Rightarrow> 'd aedt \<Rightarrow> 'd aedt" where
  "odesign_Undo eng st = st\<lparr>design := Undo eng (design st), calls := calls st @ [CallUndo]\<rparr>"

text \<open>
  \<open>Object3d\<close>, as far as the two methods read it. \<^verbatim>\<open>solid_names\<close>, \<^verbatim>\<open>sheet_names\<close> and
  \<^verbatim>\<open>line_names\<close> are attributes of the object's own parent (the primitives container,
  outside the sources at hand) and are carried as fields. \<^verbatim>\<open>_object_type\<close> is not set
  by \<^verbatim>\<open>__init__\<close>, so it is optional and reading it unset raises \<^verbatim>\<open>AttributeError\<close>.
\<close>

record object3d =
  m_name :: string
  object_type_attr :: "string option"
  solid_names :: "string list"
  sheet_names :: "string list"
  line_names :: "string list"

definition object_type :: "object3d \<Rightarrow> py_error + string" where
  "object_type obj =
     (if m_name obj \<in> set (solid_names obj) then Inr ''Solid''
      else if m_name obj \<in> set (sheet_names obj) then Inr ''Sheet''
      else if m_name obj \<in> set (line_names obj) then Inr ''Line''
      else (case object_type_attr obj of
              None \<Rightarrow> Inl AttributeError
            | Some t \<Rightarrow> Inr t))"

definition is3d :: "object3d \<Rightarrow> py_error + bool" where
  "is3d obj =
     (case object_type obj of
        Inl e \<Rightarrow> Inl e
      | Inr t \<Rightarrow> if t = ''Solid'' then Inr True else Inr False)"

text \<open>
  The two subclasses of \<open>EdgeTypePrimitive\<close>: \<open>VertexPrimitive\<close> and \<open>EdgePrimitive\<close>
  (\<open>FacePrimitive\<close> does not inherit from it).
\<close>

datatype primitive_class = VertexPrimitive | EdgePrimitive

record primitive =
  prim_class :: primitive_class
  prim_id :: int
  prim_parent :: object3d

text \<open>
  Both methods end with the same four lines, under two different messages:
  \<^verbatim>\<open>
  if self._parent.name in list(self._parent.m_Editor.GetObjectsInGroup("UnClassified")):
      self._parent.odesign.Undo()
      self._parent._messenger.add_error_message(msg)
      return False
  return True
  \<close>
\<close>

definition undo_if_unclassified ::
  "'d engine \<Rightarrow> primitive \<Rightarrow> string \<Rightarrow> 'd aedt \<Rightarrow> (py_error + bool) \<times> 'd aedt" where
  "undo_if_unclassified eng self msg st =
     (case editor_GetObjectsInGroup eng ''UnClassified'' st of
        (names, st1) \<Rightarrow>
          if m_name (prim_parent self) \<in> set names
          then (Inr False, add_error_message msg (odesign_Undo eng st1))
          else (Inr True, st1))"

text \<open>
  \<open>fillet\<close>. \<^verbatim>\<open>_arg_with_dim\<close> belongs to the primitives container and is a parameter.
  The decorator \<^verbatim>\<open>aedt_exception_handler\<close> is defined outside the sources at hand: the
  model is of the decorated body, and an exception it raises is the \<open>Inl\<close> result.
\<close>

definition fillet ::
  "'d engine \<Rightarrow> (pyval \<Rightarrow> arg) \<Rightarrow> primitive \<Rightarrow> pyval \<Rightarrow> pyval \<Rightarrow> 'd aedt
   \<Rightarrow> (py_error + bool) \<times> 'd aedt" where
  "fillet eng arg_with_dim self radius setback st =
     (case (if prim_class self = VertexPrimitive then Inr (Some ([], [Num (prim_id self)]))
            else (case is3d (prim_parent self) of
                    Inl e \<Rightarrow> Inl e
                  | Inr True \<Rightarrow> Inr (Some ([Num (prim_id self)], []))
                  | Inr False \<Rightarrow> Inr None)) of
        Inl e \<Rightarrow> (Inl e, st)
      | Inr None \<Rightarrow>
          (Inr False,
           add_error_message ''Filet is possible only on a vertex in 2D designs.'' st)
      | Inr (Some (edge_id_list, vertex_id_list)) \<Rightarrow>
          (let vArg1 = Args [Str ''NAME:Selections'', Str ''Selections:='',
                             Str (m_name (prim_parent self)),
                             Str ''NewPartsModelFlag:='', Str ''Model''];
               vArg2 = Args [Str ''NAME:FilletParameters'',
                             Str ''Edges:='', Args edge_id_list,
                             Str ''Vertices:='', Args vertex_id_list,
                             Str ''Radius:='', arg_with_dim radius,
                             Str ''Setback:='', arg_with_dim setback];
               st1 = editor_Fillet eng vArg1 (Args [Str ''NAME:Parameters'', vArg2]) st
           in undo_if_unclassified eng self
                ''Operation failed, generating an unclassified object. Check and retry.'' st1))"

text \<open>
  \<open>chamfer\<close>. \<^verbatim>\<open>str(angle)\<close> formats a Python number and is a parameter, \<open>py_str\<close>;
  \<open>chamfer_type\<close> is the integer the docstring asks for.
\<close>

definition chamfer ::
  "'d engine \<Rightarrow> (pyval \<Rightarrow> arg) \<Rightarrow> (pyval \<Rightarrow> string) \<Rightarrow> primitive
   \<Rightarrow> pyval \<Rightarrow> pyval \<Rightarrow> pyval \<Rightarrow> int \<Rightarrow> 'd aedt
   \<Rightarrow> (py_error + bool) \<times> 'd aedt" where
  "chamfer eng arg_with_dim py_str self left_distance right_distance0 angle chamfer_type st =
     (case (if prim_class self = VertexPrimitive then Inr (Some ([], [Num (prim_id self)]))
            else (case is3d (prim_parent self) of
                    Inl e \<Rightarrow> Inl e
                  | Inr True \<Rightarrow> Inr (Some ([Num (prim_id self)], []))
                  | Inr False \<Rightarrow> Inr None)) of
        Inl e \<Rightarrow> (Inl e, st)
      | Inr None \<Rightarrow>
          (Inr False,
           add_error_message ''chamfer is possible only on Vertex in 2D Designs '' st)
      | Inr (Some (edge_id_list, vertex_id_list)) \<Rightarrow>
          (let vArg1 = Args [Str ''NAME:Selections'', Str ''Selections:='',
                             Str (m_name (prim_parent self)),
                             Str ''NewPartsModelFlag:='', Str ''Model''];
               vArg2 = [Str ''NAME:ChamferParameters'',
                        Str ''Edges:='', Args edge_id_list,
                        Str ''Vertices:='', Args vertex_id_list,
                        Str ''LeftDistance:='', arg_with_dim left_distance];
               right_distance =
                 (if \<not> truthy right_distance0 then left_distance else right_distance0);
               tail =
                 (if chamfer_type = 0 then
                    Some [Str ''RightDistance:='', arg_with_dim right_distance,
                          Str ''ChamferType:='', Str ''Symmetric'']
                  else if chamfer_type = 1 then
                    Some [Str ''RightDistance:='', arg_with_dim right_distance,
                          Str ''ChamferType:='', Str ''Left Distance-Right Distance'']
                  else if chamfer_type = 2 then
                    Some [Str ''Angle:='', Str (py_str angle @ ''deg''),
                          Str ''ChamferType:='', Str ''Left Distance-Right Distance'']
                  else if chamfer_type = 3 then
                    Some [Str ''LeftDistance:='', Str (py_str angle @ ''deg''),
                          Str ''RightDistance:='', arg_with_dim right_distance,
                          Str ''ChamferType:='', Str ''Right Distance-Angle'']
                  else None)
           in case tail of
                None \<Rightarrow>
                  (Inr False,
                   add_error_message
                     ''Wrong Type Entered. Type must be integer from 0 to 3'' st)
              | Some rest \<Rightarrow>
                  undo_if_unclassified eng self
                    ''Operation Failed generating Unclassified object. Check and retry''
                    (editor_Chamfer eng vArg1
                       (Args [Str ''NAME:Parameters'', Args (vArg2 @ rest)]) st)))"

text \<open>The calls a method added to the log: those of the state after it, past the old ones.\<close>

definition new_calls :: "'d aedt \<Rightarrow> 'd aedt \<Rightarrow> call list" where
  "new_calls st st' = drop (length (calls st)) (calls st')"

fun is_Undo :: "call \<Rightarrow> bool" where
  "is_Undo CallUndo = True"
| "is_Undo _ = False"

fun is_Fillet :: "call \<Rightarrow> bool" where
  "is_Fillet (CallFillet a1 a2) = True"
| "is_Fillet _ = False"

subsection \<open>A small engine and design to run the methods on\<close>

text \<open>
  An engine whose design state counts the operations applied; when \<open>failing\<close>, every
  operation leaves the object \<open>Box1\<close> unclassified. \<open>Undo\<close> takes one operation back.
\<close>

definition example_engine :: "bool \<Rightarrow> nat engine" where
  "example_engine failing =
     \<lparr>Fillet = (\<lambda>a1 a2 d. Suc d),
      Chamfer = (\<lambda>a1 a2 d. Suc d),
      GetObjectsInGroup =
        (\<lambda>g d. if failing \<and> g = ''UnClassified'' \<and> 0 < d then [''Box1''] else []),
      Undo = (\<lambda>d. d - 1)\<rparr>"

definition example_arg_with_dim :: "pyval \<Rightarrow> arg" where
  "example_arg_with_dim v = (case v of PyStr s \<Rightarrow> Str s | _ \<Rightarrow> Str ''0.1mm'')"

definition example_py_str :: "pyval \<Rightarrow> string" where
  "example_py_str v = (case v of PyStr s \<Rightarrow> s | _ \<Rightarrow> ''45'')"

definition example_box :: object3d where
  "example_box =
     \<lparr>m_name = ''Box1'', object_type_attr = None, solid_names = [''Box1''],
      sheet_names = [], line_names = []\<rparr>"

definition example_rectangle :: object3d where
  "example_rectangle =
     \<lparr>m_name = ''Rect1'', object_type_attr = None, solid_names = [''Box1''],
      sheet_names = [''Rect1''], line_names = []\<rparr>"

definition example_edge :: primitive where
  "example_edge = \<lparr>prim_class = EdgePrimitive, prim_id = 7, prim_parent = example_box\<rparr>"

definition example_edge_2d :: primitive where
  "example_edge_2d =
     \<lparr>prim_class = EdgePrimitive, prim_id = 9, prim_parent = example_rectangle\<rparr>"

definition example_state :: "nat aedt" where
  "example_state = \<lparr>design = 0, calls = [], error_messages = []\<rparr>"

section \<open>Edb: construction, DLL loading and the core accessors\<close>

text \<open>
  \<^verbatim>\<open>src/pyaedt/edb.py\<close>. Everything outside Python is a parameter, the record \<open>edb_env\<close>:
  the module globals set while \<^verbatim>\<open>edb.py\<close> is imported, the operating system, the
  \<^verbatim>\<open>__main__\<close> module, the \<^verbatim>\<open>clr\<close> runtime and the EDB assemblies. Databases, cells,
  builders and the core objects are handles, natural numbers; a falsy or \<^verbatim>\<open>None\<close>
  result of an external call is \<open>None\<close>.
\<close>

record edb_env =
  ironpython :: bool
  inside_desktop :: bool
  edb_initialized :: bool
  os_name_posix :: bool
  path_exists :: "string \<Rightarrow> bool"
  path_join :: "string \<Rightarrow> string \<Rightarrow> string"
  path_dirname :: "string \<Rightarrow> string"
  path_basename :: "string \<Rightarrow> string"
  path_splitext_root :: "string \<Rightarrow> string"
  module_dir :: string
  env_value :: "string \<Rightarrow> string"
  env_path :: "string \<Rightarrow> string"
  env_path_student :: "string \<Rightarrow> string"
  in_environ :: "string \<Rightarrow> bool"
  generate_unique_name :: "string \<Rightarrow> string"
  main_has_oMessenger :: bool
  main_oDesktop_GetExeDir :: "string option"
  main_isoutsideDesktop :: "bool option"
  assembly_found :: "string \<Rightarrow> bool"
  module_found :: "string \<Rightarrow> bool"
  Database_Open :: "string option \<Rightarrow> bool \<Rightarrow> nat option"
  Database_Create :: "string option \<Rightarrow> nat option"
  Database_Attach :: "nat \<Rightarrow> nat option"
  TopCircuitCells :: "nat \<Rightarrow> nat list"
  Cell_GetName :: "nat \<Rightarrow> string"
  Cell_Create :: "nat \<Rightarrow> string option \<Rightarrow> nat option"
  Cell_FindByName :: "nat option \<Rightarrow> string option \<Rightarrow> nat option"
  LayoutMethods_GetBuilder ::
    "nat \<Rightarrow> nat \<Rightarrow> string option \<Rightarrow> string \<Rightarrow> bool \<Rightarrow> bool \<Rightarrow> nat option"
  Translate :: "string \<Rightarrow> string \<Rightarrow> bool"

text \<open>
  The calls that leave Python, in the order they return, with the messages handed to the
  messenger and the constructions of core objects.
\<close>

datatype edb_event =
    AddReference string
  | AddReferenceToFile string
  | AddReferenceToFileAndPath string
  | Import string
  | SetRunAsStandAlone bool
  | DatabaseOpen "string option" bool
  | DatabaseCreate "string option"
  | DatabaseAttach nat
  | CellCreate "string option"
  | CellFindByName "string option"
  | LoadDataModel string
  | GetBuilder
  | TranslatorRun string string
  | InfoMessage string
  | WarningMessage string
  | ErrorMessage string
  | Construct string nat

text \<open>
  The attributes of an \<open>Edb\<close> object. A private attribute \<^verbatim>\<open>_x\<close> is the field \<open>p_x\<close>.
  The attributes that \<^verbatim>\<open>_init_dlls\<close> assigns hold modules and classes: the model keeps
  whether each is set (reading an unset one raises \<^verbatim>\<open>AttributeError\<close>); \<open>base_path\<close> is
  unset while \<open>None\<close>. \<open>oproject\<close> is \<open>None\<close> or a project, given by what its
  \<^verbatim>\<open>GetEDBHandle()\<close> returns. \<open>trace\<close> and \<open>next_handle\<close> are not attributes: the events so
  far, and the next fresh handle for a core object.
\<close>

record edb_state =
  p_components :: "nat option"
  p_core_primitives :: "nat option"
  p_stackup :: "nat option"
  p_padstack :: "nat option"
  p_siwave :: "nat option"
  p_hfss :: "nat option"
  p_nets :: "nat option"
  p_db :: "nat option"
  p_active_cell :: "nat option"
  builder :: "nat option"
  standalone :: bool
  oproject :: "nat option option"
  student_version :: bool
  edbversion :: string
  isaedtowned :: bool
  isreadonly :: bool
  cellname :: "string option"
  edbpath :: "string option"
  base_path :: "string option"
  edb :: bool
  edblib :: bool
  edbutils :: bool
  simSetup :: bool
  layout_methods :: bool
  simsetupdata :: bool
  trace :: "edb_event list"
  next_handle :: nat

text \<open>What a method returns: \<^verbatim>\<open>None\<close>, \<^verbatim>\<open>False\<close> or a builder.\<close>

datatype ret = RetNone | RetFalse | RetBuilder nat

text \<open>
  A method is a function from the state to a result, an exception or a value, and the
  state it leaves. \<open>and_then\<close> runs a second step on the value of the first one unless
  the first one raised; \<open>block\<close> runs statements in order up to the first that raises.
\<close>

type_synonym 'a edb_m = "edb_state \<Rightarrow> (py_error + 'a) \<times> edb_state"

definition done_with :: "'a \<Rightarrow> 'a edb_m" where
  "done_with x st = (Inr x, st)"

definition raising :: "py_error \<Rightarrow> 'a edb_m" where
  "raising e st = (Inl e, st)"

definition and_then :: "'a edb_m \<Rightarrow> ('a \<Rightarrow> 'b edb_m) \<Rightarrow> 'b edb_m" where
  "and_then m f st = (case m st of (Inl e, st') \<Rightarrow> (Inl e, st') | (Inr x, st') \<Rightarrow> f x st')"

fun block :: "unit edb_m list \<Rightarrow> unit edb_m" where
  "block [] = done_with ()"
| "block (m # ms) = and_then m (\<lambda>_. block ms)"

definition assign :: "(edb_state \<Rightarrow> edb_state) \<Rightarrow> unit edb_m" where
  "assign f st = (Inr (), f st)"

definition emit :: "edb_event \<Rightarrow> unit edb_m" where
  "emit e st = (Inr (), st\<lparr>trace := trace st @ [e]\<rparr>)"

text \<open>
  The decorator \<^verbatim>\<open>aedt_exception_handler\<close> is defined in
  \<^verbatim>\<open>pyaedt/generic/general_methods.py\<close>, outside the sources at hand. What the model takes
  from it: a decorated method returns \<^verbatim>\<open>False\<close> where its body raises, and keeps what
  the body did up to there. The messages the decorator itself writes are not in the trace.
\<close>

definition aedt_exception_handler :: "ret edb_m \<Rightarrow> ret edb_m" where
  "aedt_exception_handler body st =
     (case body st of (Inl e, st') \<Rightarrow> (Inr RetFalse, st') | (Inr r, st') \<Rightarrow> (Inr r, st'))"

text \<open>A call statement: the method runs and its result is dropped.\<close>

definition call_stmt :: "ret edb_m \<Rightarrow> unit edb_m" where
  "call_stmt m = and_then m (\<lambda>_. done_with ())"

text \<open>\<^verbatim>\<open>"{}".format(x)\<close> on an optional string and on a Boolean.\<close>

definition format_opt :: "string option \<Rightarrow> string" where
  "format_opt x = (case x of None \<Rightarrow> ''None'' | Some s \<Rightarrow> s)"

definition format_bool :: "bool \<Rightarrow> string" where
  "format_bool b = (if b then ''True'' else ''False'')"

text \<open>Python's truth value of an optional string: \<^verbatim>\<open>None\<close> and \<^verbatim>\<open>""\<close> are false.\<close>

definition truthy_str :: "string option \<Rightarrow> bool" where
  "truthy_str x = (case x of None \<Rightarrow> False | Some s \<Rightarrow> s \<noteq> [])"

subsection \<open>\<^verbatim>\<open>_clean_variables\<close>, \<^verbatim>\<open>_init_objects\<close>\<close>

text \<open>
  \<^verbatim>\<open>_clean_variables\<close> also sets \<^verbatim>\<open>self._edb\<close>, which nothing reads, and collects garbage.
\<close>

definition clean_variables :: "edb_state \<Rightarrow> edb_state" where
  "clean_variables st =
     st\<lparr>p_components := None, p_core_primitives := None, p_stackup := None,
        p_padstack := None, p_siwave := None, p_hfss := None, p_nets := None,
        p_db := None, builder := None\<rparr>"

text \<open>
  The constructors \<^verbatim>\<open>Components(self)\<close>, \<^verbatim>\<open>EdbStackup(self)\<close>, ... belong to
  \<^verbatim>\<open>pyaedt/edb_core\<close>; \<^verbatim>\<open>EdbSiwave.__init__\<close> only stores its parent. A construction
  returns a fresh handle and is recorded in the trace.
\<close>

definition construct :: "string \<Rightarrow> edb_state \<Rightarrow> nat \<times> edb_state" where
  "construct cls st =
     (next_handle st,
      st\<lparr>trace := trace st @ [Construct cls (next_handle st)],
         next_handle := Suc (next_handle st)\<rparr>)"

definition init_objects_body :: "ret edb_m" where
  "init_objects_body =
     and_then (block
       [assign (\<lambda>st. case construct ''Components'' st of
                        (h, st') \<Rightarrow> st'\<lparr>p_components := Some h\<rparr>),
        assign (\<lambda>st. case construct ''EdbStackup'' st of
                        (h, st') \<Rightarrow> st'\<lparr>p_stackup := Some h\<rparr>),
        assign (\<lambda>st. case construct ''EdbPadstacks'' st of
                        (h, st') \<Rightarrow> st'\<lparr>p_padstack := Some h\<rparr>),
        assign (\<lambda>st. case construct ''EdbSiwave'' st of
                        (h, st') \<Rightarrow> st'\<lparr>p_siwave := Some h\<rparr>),
        assign (\<lambda>st. case construct ''Edb3DLayout'' st of
                        (h, st') \<Rightarrow> st'\<lparr>p_hfss := Some h\<rparr>),
        assign (\<lambda>st. case construct ''EdbNets'' st of
                        (h, st') \<Rightarrow> st'\<lparr>p_nets := Some h\<rparr>),
        assign (\<lambda>st. case construct ''EdbLayout'' st of
                        (h, st') \<Rightarrow> st'\<lparr>p_core_primitives := Some h\<rparr>),
        emit (InfoMessage ''Objects Initialized'')])
       (\<lambda>_. done_with RetNone)"

definition init_objects :: "ret edb_m" where
  "init_objects = aedt_exception_handler init_objects_body"

subsection \<open>\<^verbatim>\<open>_init_dlls\<close>\<close>

text \<open>
  A reference to an assembly and an import either return, and are recorded, or raise.
\<close>

definition clr_AddReference :: "edb_env \<Rightarrow> string \<Rightarrow> unit edb_m" where
  "clr_AddReference env name =
     (if assembly_found env name then emit (AddReference name)
      else raising FileNotFoundException)"

definition clr_AddReferenceToFile :: "edb_env \<Rightarrow> string \<Rightarrow> unit edb_m" where
  "clr_AddReferenceToFile env name =
     (if assembly_found env name then emit (AddReferenceToFile name)
      else raising FileNotFoundException)"

definition clr_AddReferenceToFileAndPath :: "edb_env \<Rightarrow> string \<Rightarrow> unit edb_m" where
  "clr_AddReferenceToFileAndPath env name =
     (if assembly_found env name then emit (AddReferenceToFileAndPath name)
      else raising FileNotFoundException)"

definition py_import :: "edb_env \<Rightarrow> string \<Rightarrow> unit edb_m" where
  "py_import env name =
     (if module_found env name then emit (Import name) else raising ImportError)"

text \<open>
  The writes to \<^verbatim>\<open>sys.path\<close> and \<^verbatim>\<open>os.environ\<close> are not modelled; the read of
  \<^verbatim>\<open>self.base_path\<close> in them is, since it raises while the attribute is unset.
\<close>

definition read_base_path :: "unit edb_m" where
  "read_base_path st =
     (case base_path st of None \<Rightarrow> raising AttributeError st | Some b \<Rightarrow> done_with () st)"

definition init_dlls_body :: "edb_env \<Rightarrow> ret edb_m" where
  "init_dlls_body env =
     and_then (block
       [if os_name_posix env then
          block
            [(\<lambda>st. if in_environ env (env_value env (edbversion st))
                   then assign (\<lambda>st. st\<lparr>base_path := Some (env_path env (edbversion st))\<rparr>) st
                   else (case main_oDesktop_GetExeDir env of
                           Some d \<Rightarrow> assign (\<lambda>st. st\<lparr>base_path := Some d\<rparr>) st
                         | None \<Rightarrow> done_with () st)),
             clr_AddReferenceToFile env ''Ansys.Ansoft.Edb.dll'',
             clr_AddReferenceToFile env ''Ansys.Ansoft.EdbBuilderUtils.dll'',
             clr_AddReferenceToFile env ''EdbLib.dll'',
             clr_AddReferenceToFile env ''DataModel.dll'',
             (\<lambda>st. case base_path st of
                     None \<Rightarrow> raising AttributeError st
                   | Some b \<Rightarrow>
                       clr_AddReferenceToFileAndPath env
                         (path_join env b ''Ansys.Ansoft.SimSetupData.dll'') st)]
        else
          block
            [assign (\<lambda>st. st\<lparr>base_path :=
                       Some (if student_version st then env_path_student env (edbversion st)
                             else env_path env (edbversion st))\<rparr>),
             clr_AddReference env ''Ansys.Ansoft.Edb'',
             clr_AddReference env ''Ansys.Ansoft.EdbBuilderUtils'',
             clr_AddReference env ''EdbLib'',
             clr_AddReference env ''DataModel'',
             clr_AddReference env ''Ansys.Ansoft.SimSetupData''],
        read_base_path,
        py_import env ''Ansys.Ansoft.Edb'',
        assign (\<lambda>st. st\<lparr>edb := True\<rparr>),
        py_import env ''Ansys.Ansoft.EdbBuilderUtils'',
        py_import env ''EdbLib'',
        assign (\<lambda>st. st\<lparr>edblib := True\<rparr>),
        assign (\<lambda>st. st\<lparr>edbutils := True\<rparr>),
        py_import env ''Ansys.Ansoft.SimSetupData'',
        assign (\<lambda>st. st\<lparr>simSetup := True\<rparr>),
        assign (\<lambda>st. st\<lparr>layout_methods := True\<rparr>),
        assign (\<lambda>st. st\<lparr>simsetupdata := True\<rparr>)])
       (\<lambda>_. done_with RetNone)"

definition init_dlls :: "edb_env \<Rightarrow> ret edb_m" where
  "init_dlls env = aedt_exception_handler (init_dlls_body env)"

subsection \<open>Opening and creating a database\<close>

text \<open>Reading \<^verbatim>\<open>self.edb\<close>, \<^verbatim>\<open>self.edbutils\<close> or \<^verbatim>\<open>self.layout_methods\<close>.\<close>

definition read_attr :: "(edb_state \<Rightarrow> bool) \<Rightarrow> unit edb_m" where
  "read_attr is_set st = (if is_set st then done_with () st else raising AttributeError st)"

text \<open>
  \<^verbatim>\<open>dllpath\<close>: the path of \<^verbatim>\<open>DataModel.dll\<close> beside the module (\<^verbatim>\<open>open_edb\<close> and
  \<^verbatim>\<open>open_edb_inside_aedt\<close> take the absolute path of the directory first, which the
  model does not tell apart).
\<close>

definition dllpath :: "edb_env \<Rightarrow> string" where
  "dllpath env =
     path_join env (path_join env (path_join env (module_dir env) ''dlls'') ''EDBLib'')
       ''DataModel.dll''"

text \<open>
  The lines the three methods share, up to the flag \<^verbatim>\<open>True\<close> that
  \<^verbatim>\<open>open_edb_inside_aedt\<close> adds to the arguments of \<^verbatim>\<open>GetBuilder\<close>:
  \<^verbatim>\<open>
  self.layout_methods.LoadDataModel(dllpath)
  self.builder = self.layout_methods.GetBuilder(self._db, self._active_cell, ...)
  self._init_objects()
  \<close>
\<close>

definition load_and_get_builder :: "edb_env \<Rightarrow> nat \<Rightarrow> nat \<Rightarrow> bool \<Rightarrow> unit edb_m" where
  "load_and_get_builder env db cell inside_aedt =
     block
       [read_attr layout_methods,
        emit (LoadDataModel (dllpath env)),
        read_attr layout_methods,
        emit GetBuilder,
        assign (\<lambda>st. st\<lparr>builder :=
                  LayoutMethods_GetBuilder env db cell (edbpath st) (edbversion st)
                    (standalone st) inside_aedt\<rparr>),
        call_stmt init_objects]"

text \<open>
  \<^verbatim>\<open>
  self._db = None
  self._active_cell = None
  self.builder = None
  return None
  \<close>
\<close>

definition return_without_db :: "ret edb_m" where
  "return_without_db =
     and_then (assign (\<lambda>st. st\<lparr>p_db := None, p_active_cell := None, builder := None\<rparr>))
       (\<lambda>_. done_with RetNone)"

definition return_builder :: "ret edb_m" where
  "return_builder st =
     (case builder st of None \<Rightarrow> done_with RetNone st | Some b \<Rightarrow> done_with (RetBuilder b) st)"

text \<open>
  \<^verbatim>\<open>
  for cell in list(self._db.TopCircuitCells):
      if cell.GetName() == self.cellname:
          self._active_cell = cell
  \<close>
  keeps the last cell of that name.
\<close>

fun find_cell :: "(nat \<Rightarrow> string) \<Rightarrow> nat list \<Rightarrow> string \<Rightarrow> nat option \<Rightarrow> nat option" where
  "find_cell get_name [] name found = found"
| "find_cell get_name (c # cells) name found =
     find_cell get_name cells name (if get_name c = name then Some c else found)"

text \<open>\<^verbatim>\<open>list(self._db.TopCircuitCells)[0]\<close>\<close>

definition first_top_cell :: "edb_env \<Rightarrow> nat \<Rightarrow> unit edb_m" where
  "first_top_cell env db st =
     (case TopCircuitCells env db of
        [] \<Rightarrow> raising IndexError st
      | c # cells \<Rightarrow> assign (\<lambda>st. st\<lparr>p_active_cell := Some c\<rparr>) st)"

definition open_edb_body :: "edb_env \<Rightarrow> bool \<Rightarrow> ret edb_m" where
  "open_edb_body env with_init_dlls =
     and_then (block
       [if with_init_dlls then call_stmt (init_dlls env) else done_with (),
        (\<lambda>st. emit (InfoMessage (''EDB Path '' @ format_opt (edbpath st))) st),
        (\<lambda>st. emit (InfoMessage (''EDB Version '' @ edbversion st)) st),
        read_attr edb,
        (\<lambda>st. emit (SetRunAsStandAlone (standalone st)) st),
        (\<lambda>st. emit (InfoMessage (''EDB Standalone '' @ format_bool (standalone st))) st),
        read_attr edb,
        (\<lambda>st. emit (DatabaseOpen (edbpath st) (isreadonly st)) st)])
     (\<lambda>_ st.
        case Database_Open env (edbpath st) (isreadonly st) of
          None \<Rightarrow>
            and_then (emit (WarningMessage ''Error Opening db'')) (\<lambda>_. return_without_db) st
        | Some db \<Rightarrow>
            and_then (block
              [assign (\<lambda>st. st\<lparr>p_db := Some db\<rparr>),
               emit (InfoMessage ''Database Opened''),
               assign (\<lambda>st. st\<lparr>p_active_cell := None\<rparr>),
               (\<lambda>st. case cellname st of
                       None \<Rightarrow> done_with () st
                     | Some name \<Rightarrow>
                         if name = [] then done_with () st
                         else assign (\<lambda>st. st\<lparr>p_active_cell :=
                                find_cell (Cell_GetName env) (TopCircuitCells env db) name
                                  None\<rparr>) st),
               (\<lambda>st. if p_active_cell st = None then first_top_cell env db st
                      else done_with () st),
               (\<lambda>st. case p_active_cell st of
                       None \<Rightarrow> raising AttributeError st
                     | Some cell \<Rightarrow>
                         emit (InfoMessage (''Cell '' @ Cell_GetName env cell @ '' Opened''))
                           st),
               (\<lambda>st. case p_active_cell st of
                       Some cell \<Rightarrow>
                         block
                           [emit (InfoMessage (dllpath env)),
                            load_and_get_builder env db cell False,
                            emit (InfoMessage ''Builder Initialized'')] st
                     | None \<Rightarrow>
                         block
                           [assign (\<lambda>st. st\<lparr>builder := None\<rparr>),
                            emit (ErrorMessage ''Builder Not Initialized'')] st)])
              (\<lambda>_. return_builder) st)"

definition open_edb :: "edb_env \<Rightarrow> bool \<Rightarrow> ret edb_m" where
  "open_edb env with_init_dlls = aedt_exception_handler (open_edb_body env with_init_dlls)"

text \<open>
  \<open>open_edb_inside_aedt\<close>. \<^verbatim>\<open>self.oproject.GetEDBHandle()\<close> raises when the project is
  \<^verbatim>\<open>None\<close>; a handle that is \<^verbatim>\<open>None\<close> or 0 is false.
\<close>

definition attach_edb :: "edb_env \<Rightarrow> nat \<Rightarrow> ret edb_m" where
  "attach_edb env hdl =
     and_then (block [read_attr edb, emit (DatabaseAttach hdl)])
       (\<lambda>_. case Database_Attach env hdl of
               None \<Rightarrow>
                 and_then (emit (WarningMessage ''Error Getting db''))
                   (\<lambda>_. return_without_db)
             | Some db \<Rightarrow>
                 and_then (block
                   [assign (\<lambda>st. st\<lparr>p_db := Some db\<rparr>),
                    read_attr edb,
                    (\<lambda>st. emit (CellFindByName (cellname st)) st),
                    assign (\<lambda>st. st\<lparr>p_active_cell :=
                               Cell_FindByName env (p_db st) (cellname st)\<rparr>),
                    (\<lambda>st. if p_active_cell st = None then first_top_cell env db st
                           else done_with () st)])
                   (\<lambda>_ st.
                      case p_active_cell st of
                        Some cell \<Rightarrow>
                          and_then (load_and_get_builder env db cell True)
                            (\<lambda>_. return_builder) st
                      | None \<Rightarrow>
                          and_then (assign (\<lambda>st. st\<lparr>builder := None\<rparr>))
                            (\<lambda>_. done_with RetNone) st))"

definition open_edb_inside_aedt_body :: "edb_env \<Rightarrow> bool \<Rightarrow> ret edb_m" where
  "open_edb_inside_aedt_body env with_init_dlls =
     and_then (block
       [if with_init_dlls then call_stmt (init_dlls env) else done_with (),
        emit (InfoMessage ''Opening EDB from HDL''),
        read_attr edb,
        emit (SetRunAsStandAlone False)])
     (\<lambda>_ st.
        case oproject st of
          None \<Rightarrow> raising AttributeError st
        | Some None \<Rightarrow> return_without_db st
        | Some (Some hdl) \<Rightarrow>
            if hdl = 0 then return_without_db st else attach_edb env hdl st)"

definition open_edb_inside_aedt :: "edb_env \<Rightarrow> bool \<Rightarrow> ret edb_m" where
  "open_edb_inside_aedt env with_init_dlls =
     aedt_exception_handler (open_edb_inside_aedt_body env with_init_dlls)"

definition create_edb_body :: "edb_env \<Rightarrow> bool \<Rightarrow> ret edb_m" where
  "create_edb_body env with_init_dlls =
     and_then (block
       [if with_init_dlls then call_stmt (init_dlls env) else done_with (),
        read_attr edb,
        (\<lambda>st. emit (SetRunAsStandAlone (standalone st)) st),
        read_attr edb,
        (\<lambda>st. emit (DatabaseCreate (edbpath st)) st)])
     (\<lambda>_ st.
        case Database_Create env (edbpath st) of
          None \<Rightarrow>
            and_then (emit (WarningMessage ''Error Creating db'')) (\<lambda>_. return_without_db) st
        | Some db \<Rightarrow>
            and_then (block
              [assign (\<lambda>st. st\<lparr>p_db := Some db\<rparr>),
               (\<lambda>st. if \<not> truthy_str (cellname st)
                      then assign (\<lambda>st. st\<lparr>cellname :=
                             Some (generate_unique_name env ''Cell'')\<rparr>) st
                      else done_with () st),
               read_attr edb,
               (\<lambda>st. emit (CellCreate (cellname st)) st),
               assign (\<lambda>st. st\<lparr>p_active_cell := Cell_Create env db (cellname st)\<rparr>)])
              (\<lambda>_ st.
                 case p_active_cell st of
                   Some cell \<Rightarrow>
                     and_then (load_and_get_builder env db cell False) (\<lambda>_. return_builder) st
                 | None \<Rightarrow>
                     and_then (assign (\<lambda>st. st\<lparr>builder := None\<rparr>))
                       (\<lambda>_. done_with RetNone) st) st)"

definition create_edb :: "edb_env \<Rightarrow> bool \<Rightarrow> ret edb_m" where
  "create_edb env with_init_dlls = aedt_exception_handler (create_edb_body env with_init_dlls)"

text \<open>
  \<open>import_layout_pcb\<close>. \<^verbatim>\<open>AnsTranslatorRunner\<close> and its \<^verbatim>\<open>Translate\<close> are one external
  call, from the input file and the path of the database to whether it succeeded.
\<close>

definition import_layout_pcb_body ::
  "edb_env \<Rightarrow> string \<Rightarrow> string \<Rightarrow> bool \<Rightarrow> string option \<Rightarrow> ret edb_m" where
  "import_layout_pcb_body env input_file working_dir0 with_init_dlls anstranslator_full_path =
     (let aedb_name = path_splitext_root env (path_basename env input_file) @ ''.aedb'';
          working_dir = (if working_dir0 = [] then path_dirname env input_file
                         else working_dir0);
          aedb = path_join env working_dir aedb_name
      in and_then (block
           [assign (\<lambda>st. st\<lparr>p_components := None, p_core_primitives := None,
                          p_stackup := None, p_padstack := None, p_siwave := None,
                          p_hfss := None, p_nets := None, p_db := None\<rparr>),
            if with_init_dlls then call_stmt (init_dlls env) else done_with (),
            if (case anstranslator_full_path of
                  None \<Rightarrow> False
                | Some p \<Rightarrow> p \<noteq> [] \<and> path_exists env p)
            then done_with () else read_base_path,
            read_attr edbutils,
            emit (TranslatorRun input_file aedb)])
         (\<lambda>_. if \<not> Translate env input_file aedb then
                 and_then (emit (ErrorMessage ''Translator failed to translate.''))
                   (\<lambda>_. done_with RetFalse)
               else
                 and_then (assign (\<lambda>st. st\<lparr>edbpath := Some aedb\<rparr>))
                   (\<lambda>_. open_edb env False)))"

definition import_layout_pcb ::
  "edb_env \<Rightarrow> string \<Rightarrow> string \<Rightarrow> bool \<Rightarrow> string option \<Rightarrow> ret edb_m" where
  "import_layout_pcb env input_file working_dir with_init_dlls anstranslator_full_path =
     aedt_exception_handler
       (import_layout_pcb_body env input_file working_dir with_init_dlls
          anstranslator_full_path)"

subsection \<open>\<^verbatim>\<open>__init__\<close>\<close>

text \<open>
  A new object has no attribute; the trace of its construction starts empty. The
  messenger is \<^verbatim>\<open>__main__.oMessenger\<close> (reading it raises when \<^verbatim>\<open>__main__\<close> has none) or a
  new \<^verbatim>\<open>EDBMessageManager\<close>; its messages go to the trace. The warning of the last
  \<^verbatim>\<open>else\<close> goes to Python's \<^verbatim>\<open>warnings\<close> and is not an event.

  The module binds \<^verbatim>\<open>_ironpython\<close> at the end of the \<^verbatim>\<open>try\<close> block that imports \<^verbatim>\<open>clr\<close>,
  and \<^verbatim>\<open>edb_initialized = False\<close> in its \<^verbatim>\<open>except ImportError\<close>: where \<open>edb_initialized\<close>
  is false the name \<^verbatim>\<open>_ironpython\<close> is unbound, and the test
  \<^verbatim>\<open>if _ironpython and inside_desktop\<close> raises \<^verbatim>\<open>NameError\<close>. The field \<open>ironpython\<close> of the
  environment is read only where \<open>edb_initialized\<close> holds.
\<close>

definition new_edb :: edb_state where
  "new_edb =
     \<lparr>p_components = None, p_core_primitives = None, p_stackup = None, p_padstack = None,
      p_siwave = None, p_hfss = None, p_nets = None, p_db = None, p_active_cell = None,
      builder = None, standalone = False, oproject = None, student_version = False,
      edbversion = [], isaedtowned = False, isreadonly = False, cellname = None,
      edbpath = None, base_path = None, edb = False, edblib = False, edbutils = False,
      simSetup = False, layout_methods = False, simsetupdata = False, trace = [],
      next_handle = 0\<rparr>"

text \<open>\<^verbatim>\<open>edbpath[-3:]\<close> on a string.\<close>

definition last3 :: "string \<Rightarrow> string" where
  "last3 path = drop (length path - 3) path"

definition Edb_init_body ::
  "edb_env \<Rightarrow> string option \<Rightarrow> string option \<Rightarrow> bool \<Rightarrow> string \<Rightarrow> bool
   \<Rightarrow> nat option option \<Rightarrow> bool \<Rightarrow> unit edb_m" where
  "Edb_init_body env edbpath' cellname' isreadonly' edbversion' isaedtowned' oproject'
     student_version' =
     block
       [assign clean_variables,
        if edb_initialized env
        then assign (\<lambda>st. st\<lparr>standalone := \<not> (ironpython env \<and> inside_desktop env)\<rparr>)
        else raising NameError,
        if edb_initialized env then
          block
            [assign (\<lambda>st. st\<lparr>oproject := oproject'\<rparr>),
             if isaedtowned' \<and> \<not> main_has_oMessenger env then raising AttributeError
             else done_with (),
             assign (\<lambda>st. st\<lparr>student_version := student_version'\<rparr>),
             emit (InfoMessage ''Messenger Initialized in EDB''),
             assign (\<lambda>st. st\<lparr>edbversion := edbversion', isaedtowned := isaedtowned'\<rparr>),
             call_stmt (init_dlls env),
             assign (\<lambda>st. st\<lparr>p_db := None, isreadonly := isreadonly',
                            cellname := cellname', edbpath := edbpath'\<rparr>),
             (case edbpath' of
                None \<Rightarrow> raising TypeError
              | Some path \<Rightarrow>
                  if last3 path \<in> set [''brd'', ''gds'', ''xml'', ''dxf'', ''tgz''] then
                    block
                      [assign (\<lambda>st. st\<lparr>edbpath := Some (last3 path @ ''.aedb'')\<rparr>),
                       call_stmt
                         (import_layout_pcb env path (path_dirname env path) False None)]
                  else if \<not> path_exists env (path_join env path ''edb.def'') then
                    call_stmt (create_edb env False)
                  else if sublist ''.aedb'' path then
                    block
                      [assign (\<lambda>st. st\<lparr>edbpath := Some path\<rparr>),
                       if isaedtowned' \<and> main_isoutsideDesktop env = Some False
                       then call_stmt (open_edb_inside_aedt env False)
                       else call_stmt (open_edb env False)]
                  else done_with ()),
             (\<lambda>st. if builder st \<noteq> None then emit (InfoMessage ''Edb Initialized'') st
                    else emit (InfoMessage ''Failed to initialize Dlls'') st)]
        else done_with ()]"

definition Edb_init ::
  "edb_env \<Rightarrow> string option \<Rightarrow> string option \<Rightarrow> bool \<Rightarrow> string \<Rightarrow> bool
   \<Rightarrow> nat option option \<Rightarrow> bool \<Rightarrow> (py_error + unit) \<times> edb_state" where
  "Edb_init env edbpath' cellname' isreadonly' edbversion' isaedtowned' oproject'
     student_version' =
     Edb_init_body env edbpath' cellname' isreadonly' edbversion' isaedtowned' oproject'
       student_version' new_edb"

subsection \<open>The core accessors\<close>

text \<open>
  \<^verbatim>\<open>
  if not self._components and self.builder:
      self._components = Components(self)
  return self._components
  \<close>
  and the same for the six others. A core object and a builder define neither
  \<^verbatim>\<open>__bool__\<close> nor \<^verbatim>\<open>__len__\<close>, so each is true unless it is \<^verbatim>\<open>None\<close>.
\<close>

definition core_components :: "edb_state \<Rightarrow> nat option \<times> edb_state" where
  "core_components st =
     (if p_components st = None \<and> builder st \<noteq> None
      then (case construct ''Components'' st of
              (h, st') \<Rightarrow> (Some h, st'\<lparr>p_components := Some h\<rparr>))
      else (p_components st, st))"

definition core_stackup :: "edb_state \<Rightarrow> nat option \<times> edb_state" where
  "core_stackup st =
     (if p_stackup st = None \<and> builder st \<noteq> None
      then (case construct ''EdbStackup'' st of
              (h, st') \<Rightarrow> (Some h, st'\<lparr>p_stackup := Some h\<rparr>))
      else (p_stackup st, st))"

definition core_padstack :: "edb_state \<Rightarrow> nat option \<times> edb_state" where
  "core_padstack st =
     (if p_padstack st = None \<and> builder st \<noteq> None
      then (case construct ''EdbPadstacks'' st of
              (h, st') \<Rightarrow> (Some h, st'\<lparr>p_padstack := Some h\<rparr>))
      else (p_padstack st, st))"

definition core_siwave :: "edb_state \<Rightarrow> nat option \<times> edb_state" where
  "core_siwave st =
     (if p_siwave st = None \<and> builder st \<noteq> None
      then (case construct ''EdbSiwave'' st of
              (h, st') \<Rightarrow> (Some h, st'\<lparr>p_siwave := Some h\<rparr>))
      else (p_siwave st, st))"

definition core_hfss :: "edb_state \<Rightarrow> nat option \<times> edb_state" where
  "core_hfss st =
     (if p_hfss st = None \<and> builder st \<noteq> None
      then (case construct ''Edb3DLayout'' st of
              (h, st') \<Rightarrow> (Some h, st'\<lparr>p_hfss := Some h\<rparr>))
      else (p_hfss st, st))"

definition core_nets :: "edb_state \<Rightarrow> nat option \<times> edb_state" where
  "core_nets st =
     (if p_nets st = None \<and> builder st \<noteq> None
      then (case construct ''EdbNets'' st of
              (h, st') \<Rightarrow> (Some h, st'\<lparr>p_nets := Some h\<rparr>))
      else (p_nets st, st))"

definition core_primitives :: "edb_state \<Rightarrow> nat option \<times> edb_state" where
  "core_primitives st =
     (if p_core_primitives st = None \<and> builder st \<noteq> None
      then (case construct ''EdbLayout'' st of
              (h, st') \<Rightarrow> (Some h, st'\<lparr>p_core_primitives := Some h\<rparr>))
      else (p_core_primitives st, st))"

text \<open>The seven properties, each with the attribute it caches.\<close>

definition core_accessors ::
  "((edb_state \<Rightarrow> nat option \<times> edb_state) \<times> (edb_state \<Rightarrow> nat option)) list" where
  "core_accessors =
     [(core_components, p_components), (core_stackup, p_stackup),
      (core_padstack, p_padstack), (core_siwave, p_siwave), (core_hfss, p_hfss),
      (core_nets, p_nets), (core_primitives, p_core_primitives)]"

subsection \<open>Properties of a trace\<close>

text \<open>The events that open, create or attach a database.\<close>

fun is_database_event :: "edb_event \<Rightarrow> bool" where
  "is_database_event (DatabaseOpen p r) = True"
| "is_database_event (DatabaseCreate p) = True"
| "is_database_event (DatabaseAttach h) = True"
| "is_database_event _ = False"

definition no_database_event :: "edb_state \<Rightarrow> bool" where
  "no_database_event st = (filter is_database_event (trace st) = [])"






text \<open>
  \<open>keeps I m\<close>: the method \<open>m\<close> leaves a state that satisfies \<open>I\<close> whenever it starts in
  one, whether it returns or raises. \<open>ensures P m Q E\<close>: started in \<open>P\<close>, it leaves a
  state in \<open>Q\<close> when it returns and one in \<open>E\<close> when it raises.
\<close>

definition keeps :: "(edb_state \<Rightarrow> bool) \<Rightarrow> 'a edb_m \<Rightarrow> bool" where
  "keeps I m = (\<forall>st. I st \<longrightarrow> I (snd (m st)))"


subsection \<open>An environment to construct an \<open>Edb\<close> in\<close>

text \<open>
  Windows, every assembly and module found, no file on disk (so that a database is
  created), and an engine that hands out the database 1, the cell 2 and the builder 3.
\<close>

definition example_env :: edb_env where
  "example_env =
     \<lparr>ironpython = False, inside_desktop = False, edb_initialized = True,
      os_name_posix = False,
      path_exists = (\<lambda>p. False),
      path_join = (\<lambda>a b. a @ ''/'' @ b),
      path_dirname = (\<lambda>p. []),
      path_basename = (\<lambda>p. p),
      path_splitext_root = (\<lambda>p. p),
      module_dir = ''pyaedt'',
      env_value = (\<lambda>v. ''ANSYSEM_ROOT211''),
      env_path = (\<lambda>v. ''AnsysEM''),
      env_path_student = (\<lambda>v. ''AnsysEMSV''),
      in_environ = (\<lambda>v. True),
      generate_unique_name = (\<lambda>n. n @ ''_1''),
      main_has_oMessenger = False,
      main_oDesktop_GetExeDir = None,
      main_isoutsideDesktop = None,
      assembly_found = (\<lambda>n. True),
      module_found = (\<lambda>n. True),
      Database_Open = (\<lambda>p r. Some 1),
      Database_Create = (\<lambda>p. Some 1),
      Database_Attach = (\<lambda>h. Some 1),
      TopCircuitCells = (\<lambda>db. [2]),
      Cell_GetName = (\<lambda>c. ''Cell_1''),
      Cell_Create = (\<lambda>db n. Some 2),
      Cell_FindByName = (\<lambda>db n. Some 2),
      LayoutMethods_GetBuilder = (\<lambda>db cell p v s f. Some 3),
      Translate = (\<lambda>i a. True)\<rparr>"

section \<open>Variables: the engineering-unit \<open>Variable\<close>\<close>

text \<open>
  Modelled from the spec: the class \<^verbatim>\<open>Variable\<close> and the tables \<^verbatim>\<open>AEDT_units\<close> and
  \<^verbatim>\<open>SI_units\<close> of \<^verbatim>\<open>pyaedt/application/Variables.py\<close>, which is not among the sources at
  hand. The spec names the subsystem (arithmetic and unit conversion of a value with a
  unit, across unit systems); what it computes is taken from the assertions of
  \<^verbatim>\<open>src/_unittest/test_09_VariableManager.py\<close>. Python floats are reals. A variable keeps
  its value in SI units and the name of the unit it is shown in; the expression
  \<^verbatim>\<open>Variable("4mm")\<close> is \<open>Variable 4 ''mm''\<close> here, the parsing of the string is not
  modelled.
\<close>

datatype unit_system =
    NoUnits
  | Length
  | Current
  | Voltage
  | Power
  | Torque
  | AngularSpeed
  | Angle
  | Time
  | Freq
  | Speed
  | Resistance
  | Inductance
  | Temperature

text \<open>
  Modelled from the spec: the table of units, restricted to the units the tests use.
  An entry gives the unit system of a unit and the map to SI, \<open>x \<mapsto> k * x + c\<close>; \<open>c\<close> is
  0 except for the temperatures. \<open>NoUnits\<close> is the unit system the tests call
  \<^verbatim>\<open>"None"\<close>, with the empty unit name.
\<close>

definition AEDT_units :: "(string \<times> unit_system \<times> real \<times> real) list" where
  "AEDT_units =
     [([], NoUnits, 1, 0),
      (''mm'', Length, 1 / 1000, 0),
      (''meter'', Length, 1, 0),
      (''in'', Length, 254 / 10000, 0),
      (''mA'', Current, 1 / 1000, 0),
      (''A'', Current, 1, 0),
      (''V'', Voltage, 1, 0),
      (''W'', Power, 1, 0),
      (''kW'', Power, 1000, 0),
      (''NewtonMeter'', Torque, 1, 0),
      (''rad_per_sec'', AngularSpeed, 1, 0),
      (''rev_per_sec'', AngularSpeed, 2 * pi, 0),
      (''rpm'', AngularSpeed, 2 * pi / 60, 0),
      (''rad'', Angle, 1, 0),
      (''deg'', Angle, pi / 180, 0),
      (''degmin'', Angle, pi / 180 / 60, 0),
      (''degsec'', Angle, pi / 180 / 3600, 0),
      (''s'', Time, 1, 0),
      (''Hz'', Freq, 1, 0),
      (''m_per_sec'', Speed, 1, 0),
      (''feet_per_sec'', Speed, 3048 / 10000, 0),
      (''feet_per_min'', Speed, 3048 / 10000 / 60, 0),
      (''miles_per_sec'', Speed, 1609344 / 1000, 0),
      (''miles_per_minute'', Speed, 1609344 / 1000 / 60, 0),
      (''miles_per_hour'', Speed, 1609344 / 1000 / 3600, 0),
      (''ohm'', Resistance, 1, 0),
      (''H'', Inductance, 1, 0),
      (''kel'', Temperature, 1, 0),
      (''cel'', Temperature, 1, 27315 / 100),
      (''fah'', Temperature, 5 / 9, 45967 / 180)]"

text \<open>Modelled from the spec: the SI unit of each unit system.\<close>

fun SI_units :: "unit_system \<Rightarrow> string" where
  "SI_units NoUnits = []"
| "SI_units Length = ''meter''"
| "SI_units Current = ''A''"
| "SI_units Voltage = ''V''"
| "SI_units Power = ''W''"
| "SI_units Torque = ''NewtonMeter''"
| "SI_units AngularSpeed = ''rad_per_sec''"
| "SI_units Angle = ''rad''"
| "SI_units Time = ''s''"
| "SI_units Freq = ''Hz''"
| "SI_units Speed = ''m_per_sec''"
| "SI_units Resistance = ''ohm''"
| "SI_units Inductance = ''H''"
| "SI_units Temperature = ''kel''"

text \<open>
  Modelled from the spec: the unit system of a product. The pairs are those of the
  division table that the docstring of \<^verbatim>\<open>test_10_division\<close> lists, read as products.
\<close>

fun multiply_rule :: "unit_system \<Rightarrow> unit_system \<Rightarrow> unit_system option" where
  "multiply_rule Current Voltage = Some Power"
| "multiply_rule Torque AngularSpeed = Some Power"
| "multiply_rule AngularSpeed Time = Some Angle"
| "multiply_rule Current Resistance = Some Voltage"
| "multiply_rule AngularSpeed Inductance = Some Resistance"
| "multiply_rule Speed Time = Some Length"
| "multiply_rule _ _ = None"

record variable =
  var_value :: real
  var_units :: string

text \<open>Modelled from the spec: \<^verbatim>\<open>unit_system(units)\<close>, the unit system of a unit name.\<close>

definition unit_system_of :: "string \<Rightarrow> unit_system option" where
  "unit_system_of u = map_option fst (map_of AEDT_units u)"

text \<open>
  Modelled from the spec: the constructor \<^verbatim>\<open>Variable(x, u)\<close> and the property
  \<^verbatim>\<open>numeric_value\<close>, the value in the variable's own unit. A unit that is not in the table
  is a \<^verbatim>\<open>KeyError\<close>.
\<close>

definition Variable :: "real \<Rightarrow> string \<Rightarrow> py_error + variable" where
  "Variable x u =
     (case map_of AEDT_units u of
        None \<Rightarrow> Inl KeyError
      | Some (sys, k, c) \<Rightarrow> Inr \<lparr>var_value = k * x + c, var_units = u\<rparr>)"

definition numeric_value :: "variable \<Rightarrow> py_error + real" where
  "numeric_value v =
     (case map_of AEDT_units (var_units v) of
        None \<Rightarrow> Inl KeyError
      | Some (sys, k, c) \<Rightarrow> Inr ((var_value v - c) / k))"

text \<open>
  Modelled from the spec: \<^verbatim>\<open>rescale_to\<close> asserts that the new unit is of the variable's
  unit system and changes the unit the variable is shown in.
\<close>

definition rescale_to :: "variable \<Rightarrow> string \<Rightarrow> py_error + variable" where
  "rescale_to v u =
     (case (unit_system_of (var_units v), unit_system_of u) of
        (Some s1, Some s2) \<Rightarrow>
          if s1 = s2 then Inr (v\<lparr>var_units := u\<rparr>) else Inl AssertionError
      | _ \<Rightarrow> Inl KeyError)"

text \<open>\<^verbatim>\<open>Variable(x, u).rescale_to(u').numeric_value\<close>\<close>

definition rescaled_numeric_value :: "real \<Rightarrow> string \<Rightarrow> string \<Rightarrow> py_error + real" where
  "rescaled_numeric_value x u u' =
     (case Variable x u of
        Inl e \<Rightarrow> Inl e
      | Inr v \<Rightarrow> (case rescale_to v u' of Inl e \<Rightarrow> Inl e | Inr v' \<Rightarrow> numeric_value v'))"

text \<open>
  Modelled from the spec: the product of two variables. A factor without units scales
  the numeric value of the other and keeps its unit. Otherwise the SI values are
  multiplied and the result is in the SI unit of the unit system that \<open>multiply_rule\<close>
  gives for the two systems, in either order, and without units when it gives none.
\<close>

definition multiply :: "variable \<Rightarrow> variable \<Rightarrow> py_error + variable" where
  "multiply a b =
     (case (map_of AEDT_units (var_units a), map_of AEDT_units (var_units b)) of
        (Some (sa, ka, ca), Some (sb, kb, cb)) \<Rightarrow>
          if sa = NoUnits then
            Variable (((var_value a - ca) / ka) * ((var_value b - cb) / kb)) (var_units b)
          else if sb = NoUnits then
            Variable (((var_value b - cb) / kb) * ((var_value a - ca) / ka)) (var_units a)
          else
            (case multiply_rule sa sb of
               Some s \<Rightarrow> Variable (var_value a * var_value b) (SI_units s)
             | None \<Rightarrow>
                 (case multiply_rule sb sa of
                    Some s \<Rightarrow> Variable (var_value a * var_value b) (SI_units s)
                  | None \<Rightarrow> Variable (var_value a * var_value b) []))
      | _ \<Rightarrow> Inl KeyError)"

text \<open>Modelled from the spec: the product of a variable and a Python number.\<close>

definition multiply_number :: "variable \<Rightarrow> real \<Rightarrow> py_error + variable" where
  "multiply_number a x =
     (case numeric_value a of
        Inl e \<Rightarrow> Inl e
      | Inr n \<Rightarrow> Variable (n * x) (var_units a))"

text \<open>
  Modelled from the spec: sum and difference. Both assert that the operands are of one
  unit system; the SI values are added or subtracted, and the result is in the unit
  of the operands when they share it, in the SI unit of the system otherwise.
\<close>

definition add_sub ::
  "(real \<Rightarrow> real \<Rightarrow> real) \<Rightarrow> variable \<Rightarrow> variable \<Rightarrow> py_error + variable" where
  "add_sub f a b =
     (case (unit_system_of (var_units a), unit_system_of (var_units b)) of
        (Some sa, Some sb) \<Rightarrow>
          if sa \<noteq> sb then Inl AssertionError
          else (case Variable (f (var_value a) (var_value b)) (SI_units sa) of
                  Inl e \<Rightarrow> Inl e
                | Inr r \<Rightarrow>
                    if var_units a = var_units b then rescale_to r (var_units a) else Inr r)
      | _ \<Rightarrow> Inl KeyError)"

definition add :: "variable \<Rightarrow> variable \<Rightarrow> py_error + variable" where
  "add a b = add_sub (+) a b"

definition subtract :: "variable \<Rightarrow> variable \<Rightarrow> py_error + variable" where
  "subtract a b = add_sub (-) a b"

section \<open>Theorems\<close>

subsection \<open>Angle conversions\<close>

lemma to_degrees_to_radians: "to_degrees (to_radians xs) = xs"
  by (simp add: to_degrees_def to_radians_def comp_def)

lemma to_radians_to_degrees: "to_radians (to_degrees xs) = xs"
  by (simp add: to_degrees_def to_radians_def comp_def)

text \<open>
  C9. \<open>to_degrees\<close> multiplies every element of its argument by \<open>2 * pi / 360\<close> and
  \<open>to_radians\<close> multiplies every element by \<open>360 / (2 * pi)\<close>. Each is the inverse of the
  other on both sides, and the factor of \<open>to_degrees\<close> is the one that takes degrees to
  radians: it sends 180 to \<open>pi\<close>, while \<open>to_radians\<close> sends \<open>pi\<close> to 180.
\<close>

theorem to_degrees_to_radians_inverse:
  "to_degrees xs = map (\<lambda>i. i * (2 * pi / 360)) xs
   \<and> to_radians xs = map (\<lambda>i. i * (360 / (2 * pi))) xs
   \<and> to_degrees (to_radians xs) = xs
   \<and> to_radians (to_degrees xs) = xs
   \<and> to_degrees [180] = [pi]
   \<and> to_radians [pi] = [180]"
  using to_degrees_to_radians [of xs] to_radians_to_degrees [of xs]
  by (simp add: to_degrees_def to_radians_def)

subsection \<open>What \<open>SolutionData\<close> computes itself\<close>

text \<open>
  C1, as stated: every post-processing operation of \<open>SolutionData\<close> hands back the
  values of the engine, none computes one. It fails on \<open>to_degrees\<close>: given the
  list \<open>[360]\<close> it returns \<open>[2 * pi]\<close>, a list the method computed.
\<close>

theorem solution_data_forwarded_counterexample:
  "to_degrees [360] = [2 * pi] \<and> to_degrees [360] \<noteq> [360]"
  using pi_less_4 by (simp add: to_degrees_def)

text \<open>
  C1, amended. \<open>to_degrees\<close>, \<open>to_radians\<close> and \<open>_convert_list_to_SI\<close> compute their
  results in Python, from their arguments alone. \<open>to_degrees\<close> and \<open>to_radians\<close> each
  multiply every element of the argument by one constant, the same for every list.
  \<open>_convert_list_to_SI\<close>, for a table whose entries are numbers, returns a list of the
  length of the argument whose \<open>k\<close>-th element is the \<open>k\<close>-th element of the argument
  times the entry of the table for the quantity and the unit; when the quantity or the
  unit is not in the table it returns its argument unchanged.
\<close>

theorem solution_data_computed_locally:
  "(\<exists>c. \<forall>ys. to_degrees ys = map (\<lambda>i. i * c) ys)
   \<and> (\<exists>c. \<forall>ys. to_radians ys = map (\<lambda>i. i * c) ys)
   \<and> (\<forall>row scale. table dataunits = Some row \<and> row units = Some scale \<longrightarrow>
         length (convert_list_to_SI table xs dataunits units) = length xs
         \<and> (\<forall>k < length xs.
               convert_list_to_SI table xs dataunits units ! k = xs ! k * scale))
   \<and> (table dataunits = None
        \<or> (\<exists>row. table dataunits = Some row \<and> row units = None) \<longrightarrow>
         convert_list_to_SI table xs dataunits units = xs)"
proof (intro conjI)
  show "\<exists>c. \<forall>ys. to_degrees ys = map (\<lambda>i. i * c) ys"
    by (rule exI [of _ "2 * pi / 360"]) (simp add: to_degrees_def)
  show "\<exists>c. \<forall>ys. to_radians ys = map (\<lambda>i. i * c) ys"
    by (rule exI [of _ "360 / (2 * pi)"]) (simp add: to_radians_def)
  show "\<forall>row scale. table dataunits = Some row \<and> row units = Some scale \<longrightarrow>
         length (convert_list_to_SI table xs dataunits units) = length xs
         \<and> (\<forall>k < length xs.
               convert_list_to_SI table xs dataunits units ! k = xs ! k * scale)"
    by (auto simp: convert_list_to_SI_def)
  show "table dataunits = None
        \<or> (\<exists>row. table dataunits = Some row \<and> row units = None) \<longrightarrow>
         convert_list_to_SI table xs dataunits units = xs"
    by (auto simp: convert_list_to_SI_def)
qed

theorem solution_data_computed_locally_witness:
  "example_units ''Length'' = Some [''mm'' \<mapsto> 1 / 1000, ''meter'' \<mapsto> 1]
   \<and> convert_list_to_SI example_units [4, 10] ''Length'' ''mm'' ! 0 = 4 / 1000
   \<and> convert_list_to_SI example_units [4, 10] ''Length'' ''mm'' ! 1 = 10 / 1000
   \<and> convert_list_to_SI example_units [4, 10] ''Length'' ''furlong'' = [4, 10]
   \<and> convert_list_to_SI example_units [4, 10] ''Mass'' ''mm'' = [4, 10]"
  using solution_data_computed_locally
    [where table = example_units and xs = "[4, 10]" and dataunits = "''Length''"
       and units = "''mm''"]
    solution_data_computed_locally
    [where table = example_units and xs = "[4, 10]" and dataunits = "''Length''"
       and units = "''furlong''"]
    solution_data_computed_locally
    [where table = example_units and xs = "[4, 10]" and dataunits = "''Mass''"
       and units = "''mm''"]
  by (simp add: example_units_def convert_list_to_SI_def)

subsection \<open>Fillet and chamfer\<close>

lemmas example_defs = example_engine_def example_arg_with_dim_def example_py_str_def
  example_box_def
  example_rectangle_def example_edge_def example_edge_2d_def example_state_def

lemmas method_defs = fillet_def chamfer_def is3d_def object_type_def Let_def
  undo_if_unclassified_def editor_GetObjectsInGroup_def editor_Fillet_def editor_Chamfer_def
  odesign_Undo_def add_error_message_def new_calls_def

text \<open>
  C2. A call of \<open>fillet\<close> on a vertex, or on an edge whose parent object is 3D, makes
  exactly one call of the editor's \<open>Fillet\<close>, with the two argument lists
  \<^verbatim>\<open>['NAME:Selections', 'Selections:=', name, 'NewPartsModelFlag:=', 'Model']\<close> and
  \<^verbatim>\<open>['NAME:Parameters', ['NAME:FilletParameters', 'Edges:=', edges, 'Vertices:=', vertices,
  'Radius:=', radius, 'Setback:=', setback]]\<close>, where the identifier of the primitive is the
  only edge (for an edge) or the only vertex (for a vertex) and radius and setback have
  gone through \<^verbatim>\<open>_arg_with_dim\<close>. On an edge whose parent object is not 3D the method
  returns \<open>False\<close>, makes no call on the editor or the design and leaves the design as it
  was (it adds an error message to the messenger).
\<close>

theorem fillet_forwards_arguments:
  assumes "fillet eng arg_with_dim self radius setback st = (r, st')"
  shows "(prim_class self = VertexPrimitive \<or> is3d (prim_parent self) = Inr True \<longrightarrow>
            filter is_Fillet (new_calls st st') =
              [CallFillet
                 (Args [Str ''NAME:Selections'', Str ''Selections:='',
                        Str (m_name (prim_parent self)),
                        Str ''NewPartsModelFlag:='', Str ''Model''])
                 (Args [Str ''NAME:Parameters'',
                        Args [Str ''NAME:FilletParameters'',
                              Str ''Edges:='',
                              Args (if prim_class self = VertexPrimitive then []
                                    else [Num (prim_id self)]),
                              Str ''Vertices:='',
                              Args (if prim_class self = VertexPrimitive
                                    then [Num (prim_id self)] else []),
                              Str ''Radius:='', arg_with_dim radius,
                              Str ''Setback:='', arg_with_dim setback]])])
       \<and> (prim_class self = EdgePrimitive \<and> is3d (prim_parent self) = Inr False \<longrightarrow>
            r = Inr False \<and> calls st' = calls st \<and> design st' = design st)"
  using assms
  by (auto simp: fillet_def undo_if_unclassified_def editor_GetObjectsInGroup_def
        editor_Fillet_def odesign_Undo_def add_error_message_def new_calls_def Let_def
      split: if_splits sum.splits bool.splits)

theorem fillet_forwards_arguments_witness:
  "is3d (prim_parent example_edge) = Inr True
   \<and> filter is_Fillet
        (new_calls example_state
           (snd (fillet (example_engine False) example_arg_with_dim example_edge
                   (PyFloat 0.1) (PyFloat 0) example_state))) =
       [CallFillet
          (Args [Str ''NAME:Selections'', Str ''Selections:='', Str ''Box1'',
                 Str ''NewPartsModelFlag:='', Str ''Model''])
          (Args [Str ''NAME:Parameters'',
                 Args [Str ''NAME:FilletParameters'',
                       Str ''Edges:='', Args [Num 7], Str ''Vertices:='', Args [],
                       Str ''Radius:='', Str ''0.1mm'', Str ''Setback:='', Str ''0.1mm'']])]
   \<and> is3d (prim_parent example_edge_2d) = Inr False
   \<and> fst (fillet (example_engine False) example_arg_with_dim example_edge_2d
             (PyFloat 0.1) (PyFloat 0) example_state) = Inr False
   \<and> calls (snd (fillet (example_engine False) example_arg_with_dim example_edge_2d
                    (PyFloat 0.1) (PyFloat 0) example_state)) = []"
  using fillet_forwards_arguments
    [where eng = "example_engine False" and arg_with_dim = example_arg_with_dim
       and self = example_edge and radius = "PyFloat 0.1" and setback = "PyFloat 0"
       and st = example_state
       and r = "fst (fillet (example_engine False) example_arg_with_dim example_edge
                       (PyFloat 0.1) (PyFloat 0) example_state)"
       and st' = "snd (fillet (example_engine False) example_arg_with_dim example_edge
                         (PyFloat 0.1) (PyFloat 0) example_state)"]
    fillet_forwards_arguments
    [where eng = "example_engine False" and arg_with_dim = example_arg_with_dim
       and self = example_edge_2d and radius = "PyFloat 0.1" and setback = "PyFloat 0"
       and st = example_state
       and r = "fst (fillet (example_engine False) example_arg_with_dim example_edge_2d
                       (PyFloat 0.1) (PyFloat 0) example_state)"
       and st' = "snd (fillet (example_engine False) example_arg_with_dim example_edge_2d
                         (PyFloat 0.1) (PyFloat 0) example_state)"]
  by (simp add: example_defs method_defs)

lemma undo_if_unclassified_cases:
  assumes "undo_if_unclassified eng self msg st1 = (r, st')"
  shows "if m_name (prim_parent self) \<in> set (GetObjectsInGroup eng ''UnClassified'' (design st1))
         then r = Inr False
              \<and> calls st' = calls st1 @ [CallGetObjectsInGroup ''UnClassified'', CallUndo]
              \<and> error_messages st' = error_messages st1 @ [msg]
              \<and> design st' = Undo eng (design st1)
         else r = Inr True
              \<and> calls st' = calls st1 @ [CallGetObjectsInGroup ''UnClassified'']
              \<and> error_messages st' = error_messages st1
              \<and> design st' = design st1"
  using assms
  by (auto simp: undo_if_unclassified_def editor_GetObjectsInGroup_def odesign_Undo_def
        add_error_message_def split: if_splits)

lemma fillet_reaches_engine:
  assumes "fillet eng arg_with_dim self radius setback st = (r, st')"
      and "new_calls st st' \<noteq> []"
  shows "\<exists>a1 a2 st1. st1 = editor_Fillet eng a1 a2 st
           \<and> undo_if_unclassified eng self
                ''Operation failed, generating an unclassified object. Check and retry.'' st1
              = (r, st')"
  using assms
  by (auto simp: fillet_def new_calls_def add_error_message_def Let_def
      split: if_splits sum.splits bool.splits) blast+

lemma chamfer_reaches_engine:
  assumes "chamfer eng arg_with_dim py_str self ld rd angle ct st = (r, st')"
      and "new_calls st st' \<noteq> []"
  shows "\<exists>a1 a2 st1. st1 = editor_Chamfer eng a1 a2 st
           \<and> undo_if_unclassified eng self
                ''Operation Failed generating Unclassified object. Check and retry'' st1
              = (r, st')"
  using assms
  by (auto simp: chamfer_def new_calls_def add_error_message_def Let_def
      split: if_splits sum.splits bool.splits) blast+

lemma fillet_reaches_engine_iff:
  assumes "fillet eng arg_with_dim self radius setback st = (r, st')"
  shows "(new_calls st st' \<noteq> []) =
           (prim_class self = VertexPrimitive \<or> is3d (prim_parent self) = Inr True)"
  using assms
  by (auto simp: fillet_def new_calls_def add_error_message_def Let_def editor_Fillet_def
        undo_if_unclassified_def editor_GetObjectsInGroup_def odesign_Undo_def
      split: if_splits sum.splits bool.splits)

lemma chamfer_reaches_engine_iff:
  assumes "chamfer eng arg_with_dim py_str self ld rd angle ct st = (r, st')"
  shows "(new_calls st st' \<noteq> []) =
           ((prim_class self = VertexPrimitive \<or> is3d (prim_parent self) = Inr True)
            \<and> 0 \<le> ct \<and> ct \<le> 3)"
  using assms
  by (auto simp: chamfer_def new_calls_def add_error_message_def Let_def editor_Chamfer_def
        undo_if_unclassified_def editor_GetObjectsInGroup_def odesign_Undo_def
      split: if_splits sum.splits bool.splits)

text \<open>
  C8. A call of \<open>fillet\<close> reaches the engine, that is, adds a call to the log, exactly
  when it is on a vertex or on an edge of a 3D object; a call of \<open>chamfer\<close> exactly when,
  besides, its type is one of 0 to 3. For a call that reaches the engine, the first
  call is the operation itself, \<open>logged a1 a2\<close>. If the name of the parent object is in
  the group \<open>UnClassified\<close> of the design the operation produced, the method calls \<open>Undo\<close>
  exactly once, as its last call, adds its error message and returns \<open>False\<close>; the
  design is then the engine's \<open>Undo\<close> of the operation's result, which is the design
  before the operation whenever the engine's \<open>Undo\<close> takes the operation back.
  Otherwise the method calls no \<open>Undo\<close>, adds no message and returns \<open>True\<close>.
\<close>

theorem fillet_chamfer_undo_when_unclassified:
  assumes "fillet eng arg_with_dim self radius setback st = (r, st')
             \<and> op = Fillet eng \<and> logged = CallFillet
             \<and> msg = ''Operation failed, generating an unclassified object. Check and retry.''
             \<and> reached =
                 (prim_class self = VertexPrimitive \<or> is3d (prim_parent self) = Inr True)
           \<or> chamfer eng arg_with_dim py_str self left_distance right_distance angle
                chamfer_type st = (r, st')
             \<and> op = Chamfer eng \<and> logged = CallChamfer
             \<and> msg = ''Operation Failed generating Unclassified object. Check and retry''
             \<and> reached =
                 ((prim_class self = VertexPrimitive \<or> is3d (prim_parent self) = Inr True)
                  \<and> 0 \<le> chamfer_type \<and> chamfer_type \<le> 3)"
  shows "(new_calls st st' \<noteq> []) = reached
         \<and> (new_calls st st' \<noteq> [] \<longrightarrow>
             (\<exists>a1 a2.
                hd (new_calls st st') = logged a1 a2
                \<and> (if m_name (prim_parent self)
                        \<in> set (GetObjectsInGroup eng ''UnClassified'' (op a1 a2 (design st)))
                   then r = Inr False
                        \<and> filter is_Undo (new_calls st st') = [CallUndo]
                        \<and> last (new_calls st st') = CallUndo
                        \<and> error_messages st' = error_messages st @ [msg]
                        \<and> design st' = Undo eng (op a1 a2 (design st))
                        \<and> ((\<forall>b1 b2 d. Undo eng (op b1 b2 d) = d) \<longrightarrow>
                             design st' = design st)
                   else r = Inr True
                        \<and> filter is_Undo (new_calls st st') = []
                        \<and> error_messages st' = error_messages st
                        \<and> design st' = op a1 a2 (design st))))"
proof (intro conjI impI)
  from assms show "(new_calls st st' \<noteq> []) = reached"
    using fillet_reaches_engine_iff [of eng arg_with_dim self radius setback st r st']
      chamfer_reaches_engine_iff [of eng arg_with_dim py_str self left_distance
        right_distance angle chamfer_type st r st']
    by blast
next
  assume n: "new_calls st st' \<noteq> []"
  from assms show "\<exists>a1 a2.
                hd (new_calls st st') = logged a1 a2
                \<and> (if m_name (prim_parent self)
                        \<in> set (GetObjectsInGroup eng ''UnClassified'' (op a1 a2 (design st)))
                   then r = Inr False
                        \<and> filter is_Undo (new_calls st st') = [CallUndo]
                        \<and> last (new_calls st st') = CallUndo
                        \<and> error_messages st' = error_messages st @ [msg]
                        \<and> design st' = Undo eng (op a1 a2 (design st))
                        \<and> ((\<forall>b1 b2 d. Undo eng (op b1 b2 d) = d) \<longrightarrow>
                             design st' = design st)
                   else r = Inr True
                        \<and> filter is_Undo (new_calls st st') = []
                        \<and> error_messages st' = error_messages st
                        \<and> design st' = op a1 a2 (design st))"
  proof
    assume a: "fillet eng arg_with_dim self radius setback st = (r, st')
             \<and> op = Fillet eng \<and> logged = CallFillet
             \<and> msg = ''Operation failed, generating an unclassified object. Check and retry.''
             \<and> reached =
                 (prim_class self = VertexPrimitive \<or> is3d (prim_parent self) = Inr True)"
    with n obtain a1 a2 where
      u: "undo_if_unclassified eng self msg (editor_Fillet eng a1 a2 st) = (r, st')"
      using fillet_reaches_engine by blast
    show ?thesis
      using undo_if_unclassified_cases [OF u] a
      by (intro exI [of _ a1] exI [of _ a2])
         (auto simp: editor_Fillet_def new_calls_def split: if_splits)
  next
    assume a: "chamfer eng arg_with_dim py_str self left_distance right_distance angle
                chamfer_type st = (r, st')
             \<and> op = Chamfer eng \<and> logged = CallChamfer
             \<and> msg = ''Operation Failed generating Unclassified object. Check and retry''
             \<and> reached =
                 ((prim_class self = VertexPrimitive \<or> is3d (prim_parent self) = Inr True)
                  \<and> 0 \<le> chamfer_type \<and> chamfer_type \<le> 3)"
    with n obtain a1 a2 where
      u: "undo_if_unclassified eng self msg (editor_Chamfer eng a1 a2 st) = (r, st')"
      using chamfer_reaches_engine by blast
    show ?thesis
      using undo_if_unclassified_cases [OF u] a
      by (intro exI [of _ a1] exI [of _ a2])
         (auto simp: editor_Chamfer_def new_calls_def split: if_splits)
  qed
qed

theorem fillet_chamfer_undo_when_unclassified_witness:
  "new_calls example_state
     (snd (fillet (example_engine True) example_arg_with_dim example_edge
             (PyFloat 0.1) (PyFloat 0) example_state)) \<noteq> []
   \<and> fst (fillet (example_engine True) example_arg_with_dim example_edge
             (PyFloat 0.1) (PyFloat 0) example_state) = Inr False
   \<and> filter is_Undo (calls (snd (fillet (example_engine True) example_arg_with_dim example_edge
             (PyFloat 0.1) (PyFloat 0) example_state))) = [CallUndo]
   \<and> design (snd (fillet (example_engine True) example_arg_with_dim example_edge
             (PyFloat 0.1) (PyFloat 0) example_state)) = 0
   \<and> fst (fillet (example_engine False) example_arg_with_dim example_edge
             (PyFloat 0.1) (PyFloat 0) example_state) = Inr True
   \<and> filter is_Undo (calls (snd (fillet (example_engine False) example_arg_with_dim example_edge
             (PyFloat 0.1) (PyFloat 0) example_state))) = []
   \<and> calls (snd (chamfer (example_engine True) example_arg_with_dim example_py_str example_edge
             (PyStr ''1mm'') PyNone (PyInt 45) 0 example_state)) =
       [CallChamfer
          (Args [Str ''NAME:Selections'', Str ''Selections:='', Str ''Box1'',
                 Str ''NewPartsModelFlag:='', Str ''Model''])
          (Args [Str ''NAME:Parameters'',
                 Args [Str ''NAME:ChamferParameters'',
                       Str ''Edges:='', Args [Num 7], Str ''Vertices:='', Args [],
                       Str ''LeftDistance:='', Str ''1mm'',
                       Str ''RightDistance:='', Str ''1mm'',
                       Str ''ChamferType:='', Str ''Symmetric'']]),
        CallGetObjectsInGroup ''UnClassified'', CallUndo]
   \<and> fst (chamfer (example_engine True) example_arg_with_dim example_py_str example_edge
             (PyStr ''1mm'') PyNone (PyInt 45) 0 example_state) = Inr False
   \<and> design (snd (chamfer (example_engine True) example_arg_with_dim example_py_str
             example_edge (PyStr ''1mm'') PyNone (PyInt 45) 0 example_state)) = 0
   \<and> error_messages (snd (chamfer (example_engine True) example_arg_with_dim example_py_str
             example_edge (PyStr ''1mm'') PyNone (PyInt 45) 0 example_state)) =
       [''Operation Failed generating Unclassified object. Check and retry'']
   \<and> fst (chamfer (example_engine False) example_arg_with_dim example_py_str example_edge
             (PyStr ''1mm'') PyNone (PyInt 45) 0 example_state) = Inr True
   \<and> filter is_Undo (calls (snd (chamfer (example_engine False) example_arg_with_dim
             example_py_str example_edge (PyStr ''1mm'') PyNone (PyInt 45) 0 example_state))) = []
   \<and> calls (snd (chamfer (example_engine True) example_arg_with_dim example_py_str example_edge
             (PyStr ''1mm'') PyNone (PyInt 45) 4 example_state)) = []"
  using fillet_chamfer_undo_when_unclassified
    [where eng = "example_engine True" and arg_with_dim = example_arg_with_dim
       and self = example_edge and radius = "PyFloat 0.1" and setback = "PyFloat 0"
       and st = example_state and op = "Fillet (example_engine True)" and logged = CallFillet
       and msg = "''Operation failed, generating an unclassified object. Check and retry.''"
       and reached = True
       and r = "fst (fillet (example_engine True) example_arg_with_dim example_edge
             (PyFloat 0.1) (PyFloat 0) example_state)"
       and st' = "snd (fillet (example_engine True) example_arg_with_dim example_edge
             (PyFloat 0.1) (PyFloat 0) example_state)"]
    fillet_chamfer_undo_when_unclassified
    [where eng = "example_engine True" and arg_with_dim = example_arg_with_dim
       and py_str = example_py_str and self = example_edge
       and left_distance = "PyStr ''1mm''" and right_distance = PyNone and angle = "PyInt 45"
       and chamfer_type = 0
       and st = example_state and op = "Chamfer (example_engine True)"
       and logged = CallChamfer
       and msg = "''Operation Failed generating Unclassified object. Check and retry''"
       and reached = True
       and r = "fst (chamfer (example_engine True) example_arg_with_dim example_py_str
             example_edge (PyStr ''1mm'') PyNone (PyInt 45) 0 example_state)"
       and st' = "snd (chamfer (example_engine True) example_arg_with_dim example_py_str
             example_edge (PyStr ''1mm'') PyNone (PyInt 45) 0 example_state)"]
  by (simp add: example_defs method_defs)

subsection \<open>Rules for \<open>keeps\<close> and \<open>ensures\<close>\<close>

lemma keeps_done_with: "keeps I (done_with x)"
  by (simp add: keeps_def done_with_def)

lemma keeps_raising: "keeps I (raising e)"
  by (simp add: keeps_def raising_def)

lemma keeps_assign: "(\<And>st. I st \<Longrightarrow> I (f st)) \<Longrightarrow> keeps I (assign f)"
  by (simp add: keeps_def assign_def)

lemma keeps_emit:
  "(\<And>st. I st \<Longrightarrow> I (st\<lparr>trace := trace st @ [e]\<rparr>)) \<Longrightarrow> keeps I (emit e)"
  by (simp add: keeps_def emit_def)


lemma keeps_and_then:
  "keeps I m \<Longrightarrow> (\<And>x. keeps I (f x)) \<Longrightarrow> keeps I (and_then m f)"
  unfolding keeps_def and_then_def
  by (auto split: prod.splits sum.splits)

lemma keeps_block_Nil: "keeps I (block [])"
  by (simp add: keeps_done_with)

lemma keeps_block_Cons: "keeps I m \<Longrightarrow> keeps I (block ms) \<Longrightarrow> keeps I (block (m # ms))"
  by (simp add: keeps_and_then)

lemma keeps_if: "keeps I a \<Longrightarrow> keeps I b \<Longrightarrow> keeps I (if c then a else b)"
  by simp

lemma keeps_case_option:
  "keeps I a \<Longrightarrow> (\<And>x. keeps I (b x)) \<Longrightarrow> keeps I (case v of None \<Rightarrow> a | Some x \<Rightarrow> b x)"
  by (simp split: option.splits)

lemma keeps_handler: "keeps I m \<Longrightarrow> keeps I (aedt_exception_handler m)"
  unfolding keeps_def aedt_exception_handler_def
  by (auto split: prod.splits sum.splits)

lemma keeps_call_stmt: "keeps I m \<Longrightarrow> keeps I (call_stmt m)"
  unfolding call_stmt_def by (intro keeps_and_then keeps_done_with)

lemma keeps_read_attr: "keeps I (read_attr g)"
  by (simp add: keeps_def read_attr_def done_with_def raising_def)

lemma keeps_read_base_path: "keeps I read_base_path"
  by (simp add: keeps_def read_base_path_def done_with_def raising_def split: option.splits)

lemma keeps_if_state:
  "keeps I a \<Longrightarrow> keeps I b \<Longrightarrow> keeps I (\<lambda>st. if c st then a st else b st)"
  by (simp add: keeps_def)

lemma keeps_case_option_state:
  "keeps I a \<Longrightarrow> (\<And>x. keeps I (b x))
   \<Longrightarrow> keeps I (\<lambda>st. case g st of None \<Rightarrow> a st | Some x \<Rightarrow> b x st)"
  by (simp add: keeps_def split: option.splits)



lemmas keeps_intros = keeps_done_with keeps_raising keeps_and_then keeps_block_Nil
  keeps_block_Cons keeps_if keeps_case_option keeps_handler keeps_call_stmt keeps_read_attr
  keeps_read_base_path keeps_if_state keeps_case_option_state




lemma call_stmt_handler:
  "call_stmt (aedt_exception_handler m) st = (Inr (), snd (m st))"
  by (simp add: call_stmt_def aedt_exception_handler_def and_then_def done_with_def
      split: prod.splits sum.splits)

lemmas edb_run_defs = Edb_init_def Edb_init_body_def and_then_def assign_def emit_def
  done_with_def raising_def call_stmt_def aedt_exception_handler_def init_dlls_def
  init_dlls_body_def new_edb_def clean_variables_def clr_AddReference_def
  clr_AddReferenceToFile_def clr_AddReferenceToFileAndPath_def py_import_def
  read_base_path_def read_attr_def create_edb_def create_edb_body_def
  load_and_get_builder_def init_objects_def init_objects_body_def construct_def
  return_builder_def return_without_db_def truthy_str_def last3_def dllpath_def

subsection \<open>Construction without a path\<close>

lemma keeps_clr:
  assumes "\<And>st e. I st \<Longrightarrow> \<not> is_database_event e \<Longrightarrow> I (st\<lparr>trace := trace st @ [e]\<rparr>)"
  shows "keeps I (clr_AddReference env n)" "keeps I (clr_AddReferenceToFile env n)"
    "keeps I (clr_AddReferenceToFileAndPath env n)" "keeps I (py_import env n)"
  unfolding clr_AddReference_def clr_AddReferenceToFile_def clr_AddReferenceToFileAndPath_def
    py_import_def
  by (auto intro!: keeps_if keeps_emit keeps_raising assms)

lemma no_database_event_emit:
  "no_database_event st \<Longrightarrow> \<not> is_database_event e
   \<Longrightarrow> no_database_event (st\<lparr>trace := trace st @ [e]\<rparr>)"
  by (simp add: no_database_event_def)

lemma init_dlls_body_no_database_event: "keeps no_database_event (init_dlls_body env)"
  unfolding init_dlls_body_def
  apply (intro keeps_intros keeps_clr no_database_event_emit keeps_assign)
  apply (simp_all add: no_database_event_def)
  done

lemma init_dlls_no_database_event:
  "filter is_database_event (trace st) = []
   \<Longrightarrow> filter is_database_event (trace (snd (init_dlls_body env st))) = []"
  using init_dlls_body_no_database_event unfolding keeps_def no_database_event_def by blast

lemma Edb_init_None_error:
  assumes "edb_initialized env"
  shows "fst (Edb_init env None cellname' isreadonly' edbversion' isaedtowned' oproject'
                student_version') =
         (if isaedtowned' \<and> \<not> main_has_oMessenger env then Inl AttributeError
          else Inl TypeError)"
  using assms
  by (auto simp: Edb_init_def Edb_init_body_def and_then_def assign_def emit_def
        done_with_def raising_def call_stmt_handler init_dlls_def new_edb_def
        clean_variables_def
      split: prod.splits sum.splits)

lemma Edb_init_None_trace:
  assumes "edb_initialized env"
  shows "filter is_database_event (trace (snd (Edb_init env None cellname' isreadonly'
                edbversion' isaedtowned' oproject' student_version'))) = []"
  using assms
  by (auto simp: Edb_init_def Edb_init_body_def and_then_def assign_def emit_def
        done_with_def raising_def call_stmt_handler init_dlls_def new_edb_def
        clean_variables_def
      intro!: init_dlls_no_database_event
      split: prod.splits sum.splits)

lemma Edb_init_without_clr:
  assumes "\<not> edb_initialized env"
  shows "fst (Edb_init env edbpath' cellname' isreadonly' edbversion' isaedtowned' oproject'
                student_version') = Inl NameError"
  using assms
  by (simp add: Edb_init_def Edb_init_body_def and_then_def assign_def raising_def)

text \<open>
  C3, as stated: every construction with \<^verbatim>\<open>edbpath=None\<close> and the \<^verbatim>\<open>clr\<close> runtime
  available raises \<^verbatim>\<open>TypeError\<close>. It fails for \<^verbatim>\<open>Edb(edbpath=None, isaedtowned=True)\<close>
  where \<^verbatim>\<open>__main__\<close> has no \<^verbatim>\<open>oMessenger\<close>: the read of \<^verbatim>\<open>self._main.oMessenger\<close> comes
  first and raises \<^verbatim>\<open>AttributeError\<close>.
\<close>

theorem Edb_init_without_edbpath_counterexample:
  "edb_initialized example_env
   \<and> \<not> main_has_oMessenger example_env
   \<and> fst (Edb_init example_env None None False ''2021.1'' True None False)
       = Inl AttributeError
   \<and> fst (Edb_init example_env None None False ''2021.1'' True None False)
       \<noteq> Inl TypeError"
  by (simp add: Edb_init_def Edb_init_body_def and_then_def assign_def raising_def
      done_with_def example_env_def)

text \<open>
  C3, amended. Where the \<^verbatim>\<open>clr\<close> runtime is available (\<open>edb_initialized\<close>), every
  construction with \<^verbatim>\<open>edbpath=None\<close> raises, and the trace it leaves has no event that
  opens, creates or attaches a database. The exception is the \<^verbatim>\<open>TypeError\<close> of
  \<^verbatim>\<open>edbpath[-3:]\<close> where \<open>isaedtowned\<close> is false, as by default, or \<^verbatim>\<open>__main__\<close> has an
  \<^verbatim>\<open>oMessenger\<close>; it is the \<^verbatim>\<open>AttributeError\<close> of \<^verbatim>\<open>self._main.oMessenger\<close> where
  \<open>isaedtowned\<close> is true and \<^verbatim>\<open>__main__\<close> has none. Whatever the arguments and the
  environment, a construction that returns was given a path other than \<^verbatim>\<open>None\<close> (and
  ran with the \<^verbatim>\<open>clr\<close> runtime).
\<close>

theorem Edb_init_without_edbpath:
  "(edb_initialized env \<longrightarrow>
      fst (Edb_init env None cellname' isreadonly' edbversion' isaedtowned' oproject'
             student_version') =
        (if isaedtowned' \<and> \<not> main_has_oMessenger env then Inl AttributeError
         else Inl TypeError)
      \<and> filter is_database_event
           (trace (snd (Edb_init env None cellname' isreadonly' edbversion'
              isaedtowned' oproject' student_version'))) = [])
   \<and> (fst (Edb_init env edbpath' cellname' isreadonly' edbversion' isaedtowned'
             oproject' student_version') = Inr () \<longrightarrow>
        edbpath' \<noteq> None \<and> edb_initialized env)"
proof (intro conjI impI)
  assume i: "edb_initialized env"
  show "fst (Edb_init env None cellname' isreadonly' edbversion' isaedtowned' oproject'
               student_version') =
        (if isaedtowned' \<and> \<not> main_has_oMessenger env then Inl AttributeError
         else Inl TypeError)"
    by (rule Edb_init_None_error [OF i])
  show "filter is_database_event
          (trace (snd (Edb_init env None cellname' isreadonly' edbversion'
             isaedtowned' oproject' student_version'))) = []"
    by (rule Edb_init_None_trace [OF i])
next
  assume ok: "fst (Edb_init env edbpath' cellname' isreadonly' edbversion' isaedtowned'
                   oproject' student_version') = Inr ()"
  show i: "edb_initialized env"
  proof (rule ccontr)
    assume "\<not> edb_initialized env"
    from Edb_init_without_clr [OF this, of edbpath' cellname' isreadonly' edbversion'
        isaedtowned' oproject' student_version'] ok
    show False by simp
  qed
  show "edbpath' \<noteq> None"
  proof
    assume "edbpath' = None"
    with ok Edb_init_None_error [OF i, of cellname' isreadonly' edbversion' isaedtowned'
        oproject' student_version']
    show False by (simp split: if_splits)
  qed
qed

theorem Edb_init_without_edbpath_witness:
  "edb_initialized example_env
   \<and> fst (Edb_init example_env None None False ''2021.1'' False None False) = Inl TypeError
   \<and> filter is_database_event
        (trace (snd (Edb_init example_env None None False ''2021.1'' False None False))) = []
   \<and> fst (Edb_init example_env (Some ''board.aedb'') None False ''2021.1'' False None False)
       = Inr ()"
  using Edb_init_without_edbpath
    [where env = example_env and isaedtowned' = False and cellname' = None
       and isreadonly' = False and edbversion' = "''2021.1''" and oproject' = None
       and student_version' = False and edbpath' = "Some ''board.aedb''"]
  by (simp add: edb_run_defs example_env_def)

subsection \<open>EdbLib is referenced before it is used\<close>


























subsection \<open>The core accessors of \<open>Edb\<close>\<close>

lemma core_components_cases:
  "(builder st = None \<longrightarrow> core_components st = (p_components st, st))
   \<and> (p_components st \<noteq> None \<longrightarrow> core_components st = (p_components st, st))
   \<and> p_components (snd (core_components st)) = fst (core_components st)
   \<and> builder (snd (core_components st)) = builder st
   \<and> (fst (core_components st) = None \<longrightarrow> builder st = None)"
  by (auto simp: core_components_def construct_def)

lemma core_stackup_cases:
  "(builder st = None \<longrightarrow> core_stackup st = (p_stackup st, st))
   \<and> (p_stackup st \<noteq> None \<longrightarrow> core_stackup st = (p_stackup st, st))
   \<and> p_stackup (snd (core_stackup st)) = fst (core_stackup st)
   \<and> builder (snd (core_stackup st)) = builder st
   \<and> (fst (core_stackup st) = None \<longrightarrow> builder st = None)"
  by (auto simp: core_stackup_def construct_def)

lemma core_padstack_cases:
  "(builder st = None \<longrightarrow> core_padstack st = (p_padstack st, st))
   \<and> (p_padstack st \<noteq> None \<longrightarrow> core_padstack st = (p_padstack st, st))
   \<and> p_padstack (snd (core_padstack st)) = fst (core_padstack st)
   \<and> builder (snd (core_padstack st)) = builder st
   \<and> (fst (core_padstack st) = None \<longrightarrow> builder st = None)"
  by (auto simp: core_padstack_def construct_def)

lemma core_siwave_cases:
  "(builder st = None \<longrightarrow> core_siwave st = (p_siwave st, st))
   \<and> (p_siwave st \<noteq> None \<longrightarrow> core_siwave st = (p_siwave st, st))
   \<and> p_siwave (snd (core_siwave st)) = fst (core_siwave st)
   \<and> builder (snd (core_siwave st)) = builder st
   \<and> (fst (core_siwave st) = None \<longrightarrow> builder st = None)"
  by (auto simp: core_siwave_def construct_def)

lemma core_hfss_cases:
  "(builder st = None \<longrightarrow> core_hfss st = (p_hfss st, st))
   \<and> (p_hfss st \<noteq> None \<longrightarrow> core_hfss st = (p_hfss st, st))
   \<and> p_hfss (snd (core_hfss st)) = fst (core_hfss st)
   \<and> builder (snd (core_hfss st)) = builder st
   \<and> (fst (core_hfss st) = None \<longrightarrow> builder st = None)"
  by (auto simp: core_hfss_def construct_def)

lemma core_nets_cases:
  "(builder st = None \<longrightarrow> core_nets st = (p_nets st, st))
   \<and> (p_nets st \<noteq> None \<longrightarrow> core_nets st = (p_nets st, st))
   \<and> p_nets (snd (core_nets st)) = fst (core_nets st)
   \<and> builder (snd (core_nets st)) = builder st
   \<and> (fst (core_nets st) = None \<longrightarrow> builder st = None)"
  by (auto simp: core_nets_def construct_def)

lemma core_primitives_cases:
  "(builder st = None \<longrightarrow> core_primitives st = (p_core_primitives st, st))
   \<and> (p_core_primitives st \<noteq> None \<longrightarrow> core_primitives st = (p_core_primitives st, st))
   \<and> p_core_primitives (snd (core_primitives st)) = fst (core_primitives st)
   \<and> builder (snd (core_primitives st)) = builder st
   \<and> (fst (core_primitives st) = None \<longrightarrow> builder st = None)"
  by (auto simp: core_primitives_def construct_def)

lemma accessor_cases:
  assumes "(acc, slot) \<in> set core_accessors"
  shows "(builder st = None \<longrightarrow> acc st = (slot st, st))
         \<and> (slot st \<noteq> None \<longrightarrow> acc st = (slot st, st))
         \<and> slot (snd (acc st)) = fst (acc st)
         \<and> builder (snd (acc st)) = builder st
         \<and> (fst (acc st) = None \<longrightarrow> builder st = None)"
proof -
  from assms consider
    "acc = core_components" and "slot = p_components"
    | "acc = core_stackup" and "slot = p_stackup"
    | "acc = core_padstack" and "slot = p_padstack"
    | "acc = core_siwave" and "slot = p_siwave"
    | "acc = core_hfss" and "slot = p_hfss"
    | "acc = core_nets" and "slot = p_nets"
    | "acc = core_primitives" and "slot = p_core_primitives"
    unfolding core_accessors_def by auto
  then show ?thesis
  proof cases
    case 1
    show ?thesis unfolding 1 by (rule core_components_cases)
  next
    case 2
    show ?thesis unfolding 2 by (rule core_stackup_cases)
  next
    case 3
    show ?thesis unfolding 3 by (rule core_padstack_cases)
  next
    case 4
    show ?thesis unfolding 4 by (rule core_siwave_cases)
  next
    case 5
    show ?thesis unfolding 5 by (rule core_hfss_cases)
  next
    case 6
    show ?thesis unfolding 6 by (rule core_nets_cases)
  next
    case 7
    show ?thesis unfolding 7 by (rule core_primitives_cases)
  qed
qed

lemma accessor_idempotent:
  assumes "(acc, slot) \<in> set core_accessors"
  shows "acc (snd (acc st)) = (fst (acc st), snd (acc st))"
proof -
  note first = accessor_cases [OF assms, of st]
  note second = accessor_cases [OF assms, of "snd (acc st)"]
  have held: "slot (snd (acc st)) = fst (acc st)" using first by blast
  show ?thesis
  proof (cases "fst (acc st)")
    case None
    then have "builder st = None" using first by blast
    then have "builder (snd (acc st)) = None" using first by metis
    then have "acc (snd (acc st)) = (slot (snd (acc st)), snd (acc st))"
      using second by blast
    then show ?thesis by (simp only: held)
  next
    case (Some h)
    then have "slot (snd (acc st)) \<noteq> None" by (simp only: held option.distinct simp_thms)
    then have "acc (snd (acc st)) = (slot (snd (acc st)), snd (acc st))"
      using second by blast
    then show ?thesis by (simp only: held)
  qed
qed

lemma accessor_repeated:
  assumes "(acc, slot) \<in> set core_accessors"
  shows "((snd \<circ> acc) ^^ Suc n) st = snd (acc st)"
proof (induction n)
  case 0
  show ?case by simp
next
  case (Suc n)
  have "((snd \<circ> acc) ^^ Suc (Suc n)) st = (snd \<circ> acc) (((snd \<circ> acc) ^^ Suc n) st)"
    by (simp only: funpow.simps o_apply)
  also have "\<dots> = snd (acc (snd (acc st)))" by (simp only: Suc.IH o_apply)
  also have "\<dots> = snd (acc st)" by (simp only: accessor_idempotent [OF assms, of st] snd_conv)
  finally show ?case .
qed

text \<open>
  C7. For each of the seven accessors, with the attribute it caches: while \<open>builder\<close> is
  \<open>None\<close> an access returns the attribute as it is and changes nothing, so constructs
  nothing; once the attribute holds a handle an access returns that handle and changes
  nothing; what an access returns is what the attribute holds afterwards; and every
  access after the first, however many there are, returns what the first returned and
  leaves the state the first one left.
\<close>

theorem core_accessors_cache:
  "\<forall>(acc, slot) \<in> set core_accessors.
     (builder st = None \<longrightarrow> acc st = (slot st, st))
     \<and> (\<forall>h. slot st = Some h \<longrightarrow> acc st = (Some h, st))
     \<and> slot (snd (acc st)) = fst (acc st)
     \<and> (\<forall>n. acc (((snd \<circ> acc) ^^ Suc n) st) = (fst (acc st), snd (acc st)))"
proof (clarify, intro conjI allI impI)
  fix acc slot
  assume m: "(acc, slot) \<in> set core_accessors"
  note c = accessor_cases [OF m, of st]
  { assume "builder st = None"
    then show "acc st = (slot st, st)" using c by blast }
  { fix h assume h: "slot st = Some h"
    then have "slot st \<noteq> None" by simp
    then have "acc st = (slot st, st)" using c by blast
    then show "acc st = (Some h, st)" by (simp only: h) }
  show "slot (snd (acc st)) = fst (acc st)" using c by blast
  { fix n
    have "acc (((snd \<circ> acc) ^^ Suc n) st) = acc (snd (acc st))"
      by (simp only: accessor_repeated [OF m, of n st])
    then show "acc (((snd \<circ> acc) ^^ Suc n) st) = (fst (acc st), snd (acc st))"
      by (simp only: accessor_idempotent [OF m, of st]) }
qed

theorem core_accessors_cache_witness:
  "(core_siwave, p_siwave) \<in> set core_accessors
   \<and> core_siwave new_edb = (None, new_edb)
   \<and> fst (core_siwave (new_edb\<lparr>builder := Some 1\<rparr>)) = Some 0
   \<and> core_siwave (snd (core_siwave (new_edb\<lparr>builder := Some 1\<rparr>))) =
       (Some 0, snd (core_siwave (new_edb\<lparr>builder := Some 1\<rparr>)))"
proof -
  have m: "(core_siwave, p_siwave) \<in> set core_accessors"
    by (simp add: core_accessors_def)
  have b: "builder new_edb = None" by (simp add: new_edb_def)
  have f: "fst (core_siwave (new_edb\<lparr>builder := Some 1\<rparr>)) = Some 0"
    by (simp add: core_siwave_def construct_def new_edb_def)
  from core_accessors_cache [of new_edb] m
  have "builder new_edb = None \<longrightarrow> core_siwave new_edb = (p_siwave new_edb, new_edb)"
    by blast
  with b have one: "core_siwave new_edb = (None, new_edb)" by (simp add: new_edb_def)
  from core_accessors_cache [of "new_edb\<lparr>builder := Some 1\<rparr>"] m
  have "\<forall>n. core_siwave (((snd \<circ> core_siwave) ^^ Suc n) (new_edb\<lparr>builder := Some 1\<rparr>)) =
          (fst (core_siwave (new_edb\<lparr>builder := Some 1\<rparr>)),
           snd (core_siwave (new_edb\<lparr>builder := Some 1\<rparr>)))"
    by blast
  then have "core_siwave (((snd \<circ> core_siwave) ^^ Suc 0) (new_edb\<lparr>builder := Some 1\<rparr>)) =
          (fst (core_siwave (new_edb\<lparr>builder := Some 1\<rparr>)),
           snd (core_siwave (new_edb\<lparr>builder := Some 1\<rparr>)))"
    by blast
  then have two: "core_siwave (snd (core_siwave (new_edb\<lparr>builder := Some 1\<rparr>))) =
       (Some 0, snd (core_siwave (new_edb\<lparr>builder := Some 1\<rparr>)))"
    by (simp only: funpow.simps o_apply id_apply f)
  show ?thesis using m one f two by blast
qed

subsection \<open>Variables\<close>

lemma unit_system_of_lookup:
  "unit_system_of u = Some s \<longleftrightarrow> (\<exists>k c. map_of AEDT_units u = Some (s, k, c))"
  by (auto simp: unit_system_of_def)

lemma Variable_SI_units:
  "Variable x (SI_units s) = Inr \<lparr>var_value = x, var_units = SI_units s\<rparr>"
  by (cases s) (simp_all add: Variable_def AEDT_units_def)

lemma unit_system_of_SI_units: "unit_system_of (SI_units s) = Some s"
  by (cases s) (simp_all add: unit_system_of_def AEDT_units_def)

lemma numeric_value_SI_units:
  "numeric_value \<lparr>var_value = x, var_units = SI_units s\<rparr> = Inr x"
  by (cases s) (simp_all add: numeric_value_def AEDT_units_def)

lemma scale_nonzero: "map_of AEDT_units u = Some (s, k, c) \<Longrightarrow> k \<noteq> 0"
  by (auto simp: AEDT_units_def split: if_splits)

lemma multiply_by_rule:
  assumes "unit_system_of (var_units a) = Some sa"
      and "unit_system_of (var_units b) = Some sb"
      and "sa \<noteq> NoUnits" and "sb \<noteq> NoUnits"
      and "multiply_rule sa sb = Some s \<or> multiply_rule sa sb = None \<and> multiply_rule sb sa = Some s"
  shows "multiply a b = Inr \<lparr>var_value = var_value a * var_value b, var_units = SI_units s\<rparr>"
proof -
  from assms(1) obtain ka ca where a: "map_of AEDT_units (var_units a) = Some (sa, ka, ca)"
    by (auto simp: unit_system_of_lookup)
  from assms(2) obtain kb cb where b: "map_of AEDT_units (var_units b) = Some (sb, kb, cb)"
    by (auto simp: unit_system_of_lookup)
  from assms(5) show ?thesis
    using assms(3,4) by (auto simp: multiply_def a b Variable_SI_units)
qed

text \<open>
  C4. The product of a variable of the system Current and one of the system Voltage, in
  either order, is the variable in \<open>W\<close>, of the system Power, whose SI value and numeric
  value are the product of the SI values of the operands; the same holds for Torque and
  AngularSpeed. In particular 3 mA times 40 V is 0.12 W in both orders.
\<close>

theorem multiply_gives_power:
  "(unit_system_of (var_units a) = Some Current \<and> unit_system_of (var_units b) = Some Voltage
    \<or> unit_system_of (var_units a) = Some Torque
       \<and> unit_system_of (var_units b) = Some AngularSpeed \<longrightarrow>
      multiply a b = Inr \<lparr>var_value = var_value a * var_value b, var_units = ''W''\<rparr>
      \<and> multiply b a = Inr \<lparr>var_value = var_value a * var_value b, var_units = ''W''\<rparr>)
   \<and> unit_system_of ''W'' = Some Power
   \<and> numeric_value \<lparr>var_value = x, var_units = ''W''\<rparr> = Inr x
   \<and> Variable 3 ''mA'' = Inr \<lparr>var_value = 3 / 1000, var_units = ''mA''\<rparr>
   \<and> Variable 40 ''V'' = Inr \<lparr>var_value = 40, var_units = ''V''\<rparr>
   \<and> multiply \<lparr>var_value = 3 / 1000, var_units = ''mA''\<rparr> \<lparr>var_value = 40, var_units = ''V''\<rparr>
       = Inr \<lparr>var_value = 12 / 100, var_units = ''W''\<rparr>
   \<and> multiply \<lparr>var_value = 40, var_units = ''V''\<rparr> \<lparr>var_value = 3 / 1000, var_units = ''mA''\<rparr>
       = Inr \<lparr>var_value = 12 / 100, var_units = ''W''\<rparr>"
proof (intro conjI impI)
  assume h: "unit_system_of (var_units a) = Some Current
               \<and> unit_system_of (var_units b) = Some Voltage
             \<or> unit_system_of (var_units a) = Some Torque
               \<and> unit_system_of (var_units b) = Some AngularSpeed"
  then show "multiply a b = Inr \<lparr>var_value = var_value a * var_value b, var_units = ''W''\<rparr>"
  proof
    assume "unit_system_of (var_units a) = Some Current
              \<and> unit_system_of (var_units b) = Some Voltage"
    then show ?thesis
      using multiply_by_rule [of a Current b Voltage Power] by simp
  next
    assume "unit_system_of (var_units a) = Some Torque
              \<and> unit_system_of (var_units b) = Some AngularSpeed"
    then show ?thesis
      using multiply_by_rule [of a Torque b AngularSpeed Power] by simp
  qed
  from h show "multiply b a = Inr \<lparr>var_value = var_value a * var_value b, var_units = ''W''\<rparr>"
  proof
    assume "unit_system_of (var_units a) = Some Current
              \<and> unit_system_of (var_units b) = Some Voltage"
    then show ?thesis
      using multiply_by_rule [of b Voltage a Current Power] by (simp add: mult.commute)
  next
    assume "unit_system_of (var_units a) = Some Torque
              \<and> unit_system_of (var_units b) = Some AngularSpeed"
    then show ?thesis
      using multiply_by_rule [of b AngularSpeed a Torque Power] by (simp add: mult.commute)
  qed
next
  show "unit_system_of ''W'' = Some Power"
    using unit_system_of_SI_units [of Power] by simp
  show "numeric_value \<lparr>var_value = x, var_units = ''W''\<rparr> = Inr x"
    using numeric_value_SI_units [of x Power] by simp
  show "Variable 3 ''mA'' = Inr \<lparr>var_value = 3 / 1000, var_units = ''mA''\<rparr>"
    by (simp add: Variable_def AEDT_units_def)
  show "Variable 40 ''V'' = Inr \<lparr>var_value = 40, var_units = ''V''\<rparr>"
    by (simp add: Variable_def AEDT_units_def)
  have mA: "unit_system_of ''mA'' = Some Current" and V: "unit_system_of ''V'' = Some Voltage"
    by (simp_all add: unit_system_of_def AEDT_units_def)
  show "multiply \<lparr>var_value = 3 / 1000, var_units = ''mA''\<rparr> \<lparr>var_value = 40, var_units = ''V''\<rparr>
       = Inr \<lparr>var_value = 12 / 100, var_units = ''W''\<rparr>"
    using multiply_by_rule [of "\<lparr>var_value = 3 / 1000, var_units = ''mA''\<rparr>" Current
        "\<lparr>var_value = 40, var_units = ''V''\<rparr>" Voltage Power] mA V
    by simp
  show "multiply \<lparr>var_value = 40, var_units = ''V''\<rparr> \<lparr>var_value = 3 / 1000, var_units = ''mA''\<rparr>
       = Inr \<lparr>var_value = 12 / 100, var_units = ''W''\<rparr>"
    using multiply_by_rule [of "\<lparr>var_value = 40, var_units = ''V''\<rparr>" Voltage
        "\<lparr>var_value = 3 / 1000, var_units = ''mA''\<rparr>" Current Power] mA V
    by simp
qed

theorem multiply_gives_power_witness:
  "unit_system_of (var_units \<lparr>var_value = 100, var_units = ''NewtonMeter''\<rparr>) = Some Torque
   \<and> unit_system_of (var_units \<lparr>var_value = 1000 * (2 * pi / 60), var_units = ''rpm''\<rparr>)
       = Some AngularSpeed
   \<and> multiply \<lparr>var_value = 100, var_units = ''NewtonMeter''\<rparr>
        \<lparr>var_value = 1000 * (2 * pi / 60), var_units = ''rpm''\<rparr>
       = Inr \<lparr>var_value = 100 * (1000 * (2 * pi / 60)), var_units = ''W''\<rparr>
   \<and> multiply \<lparr>var_value = 1000 * (2 * pi / 60), var_units = ''rpm''\<rparr>
        \<lparr>var_value = 100, var_units = ''NewtonMeter''\<rparr>
       = Inr \<lparr>var_value = 100 * (1000 * (2 * pi / 60)), var_units = ''W''\<rparr>"
  using multiply_gives_power
    [of "\<lparr>var_value = 100, var_units = ''NewtonMeter''\<rparr>"
        "\<lparr>var_value = 1000 * (2 * pi / 60), var_units = ''rpm''\<rparr>"]
  by (simp add: unit_system_of_def AEDT_units_def)

lemma add_sub_same_system:
  assumes "unit_system_of (var_units a) = Some s" and "unit_system_of (var_units b) = Some s"
  shows "add_sub f a b =
           Inr \<lparr>var_value = f (var_value a) (var_value b),
                var_units = (if var_units a = var_units b then var_units a else SI_units s)\<rparr>"
  using assms
  by (simp add: add_sub_def Variable_SI_units rescale_to_def unit_system_of_SI_units)

lemma add_sub_other_system:
  assumes "unit_system_of (var_units a) = Some sa" and "unit_system_of (var_units b) = Some sb"
      and "sa \<noteq> sb"
  shows "add_sub f a b = Inl AssertionError"
  using assms by (simp add: add_sub_def)

text \<open>
  C5. Sum and difference of two variables of different unit systems fail with an
  \<^verbatim>\<open>AssertionError\<close>, in both orders; of two variables of one unit system they are the
  variable of that system whose SI value is the sum or the difference of the SI values.
  In particular 10 mm and the number 3 without units cannot be added or subtracted, and
  3 mA plus 10 A is 10.003 A.
\<close>

theorem add_subtract_one_unit_system:
  "(unit_system_of (var_units a) = Some sa \<and> unit_system_of (var_units b) = Some sb
      \<and> sa \<noteq> sb \<longrightarrow>
      add a b = Inl AssertionError \<and> add b a = Inl AssertionError
      \<and> subtract a b = Inl AssertionError \<and> subtract b a = Inl AssertionError)
   \<and> (unit_system_of (var_units a) = Some sa \<and> unit_system_of (var_units b) = Some sa \<longrightarrow>
        (\<exists>r. add a b = Inr r \<and> var_value r = var_value a + var_value b
              \<and> unit_system_of (var_units r) = Some sa)
        \<and> (\<exists>r. subtract a b = Inr r \<and> var_value r = var_value a - var_value b
              \<and> unit_system_of (var_units r) = Some sa))
   \<and> add \<lparr>var_value = 10 / 1000, var_units = ''mm''\<rparr> \<lparr>var_value = 3, var_units = []\<rparr>
       = Inl AssertionError
   \<and> add \<lparr>var_value = 3, var_units = []\<rparr> \<lparr>var_value = 10 / 1000, var_units = ''mm''\<rparr>
       = Inl AssertionError
   \<and> subtract \<lparr>var_value = 10 / 1000, var_units = ''mm''\<rparr> \<lparr>var_value = 3, var_units = []\<rparr>
       = Inl AssertionError
   \<and> subtract \<lparr>var_value = 3, var_units = []\<rparr> \<lparr>var_value = 10 / 1000, var_units = ''mm''\<rparr>
       = Inl AssertionError
   \<and> add \<lparr>var_value = 3 / 1000, var_units = ''mA''\<rparr> \<lparr>var_value = 10, var_units = ''A''\<rparr>
       = Inr \<lparr>var_value = 10003 / 1000, var_units = ''A''\<rparr>
   \<and> numeric_value \<lparr>var_value = 10003 / 1000, var_units = ''A''\<rparr> = Inr (10003 / 1000)"
proof (intro conjI impI)
  assume h: "unit_system_of (var_units a) = Some sa \<and> unit_system_of (var_units b) = Some sb
      \<and> sa \<noteq> sb"
  then have ab: "unit_system_of (var_units a) = Some sa"
    and ba: "unit_system_of (var_units b) = Some sb" and ne: "sa \<noteq> sb" "sb \<noteq> sa"
    by auto
  show "add a b = Inl AssertionError"
    unfolding add_def by (rule add_sub_other_system [OF ab ba ne(1)])
  show "add b a = Inl AssertionError"
    unfolding add_def by (rule add_sub_other_system [OF ba ab ne(2)])
  show "subtract a b = Inl AssertionError"
    unfolding subtract_def by (rule add_sub_other_system [OF ab ba ne(1)])
  show "subtract b a = Inl AssertionError"
    unfolding subtract_def by (rule add_sub_other_system [OF ba ab ne(2)])
next
  assume h: "unit_system_of (var_units a) = Some sa \<and> unit_system_of (var_units b) = Some sa"
  then have ab: "unit_system_of (var_units a) = Some sa"
    and ba: "unit_system_of (var_units b) = Some sa" by auto
  show "\<exists>r. add a b = Inr r \<and> var_value r = var_value a + var_value b
              \<and> unit_system_of (var_units r) = Some sa"
    unfolding add_def
    using add_sub_same_system [OF ab ba, of "(+)"] ab
    by (auto simp: unit_system_of_SI_units)
  show "\<exists>r. subtract a b = Inr r \<and> var_value r = var_value a - var_value b
              \<and> unit_system_of (var_units r) = Some sa"
    unfolding subtract_def
    using add_sub_same_system [OF ab ba, of "(-)"] ab
    by (auto simp: unit_system_of_SI_units)
next
  have mm: "unit_system_of ''mm'' = Some Length" and no: "unit_system_of [] = Some NoUnits"
    and mA: "unit_system_of ''mA'' = Some Current" and A: "unit_system_of ''A'' = Some Current"
    by (simp_all add: unit_system_of_def AEDT_units_def)
  show "add \<lparr>var_value = 10 / 1000, var_units = ''mm''\<rparr> \<lparr>var_value = 3, var_units = []\<rparr>
       = Inl AssertionError"
    unfolding add_def
    using add_sub_other_system [of "\<lparr>var_value = 10 / 1000, var_units = ''mm''\<rparr>" Length "\<lparr>var_value = 3, var_units = []\<rparr>" NoUnits "(+)"] mm no
    by simp
  show "add \<lparr>var_value = 3, var_units = []\<rparr> \<lparr>var_value = 10 / 1000, var_units = ''mm''\<rparr>
       = Inl AssertionError"
    unfolding add_def
    using add_sub_other_system [of "\<lparr>var_value = 3, var_units = []\<rparr>" NoUnits "\<lparr>var_value = 10 / 1000, var_units = ''mm''\<rparr>" Length "(+)"] mm no
    by simp
  show "subtract \<lparr>var_value = 10 / 1000, var_units = ''mm''\<rparr> \<lparr>var_value = 3, var_units = []\<rparr>
       = Inl AssertionError"
    unfolding subtract_def
    using add_sub_other_system [of "\<lparr>var_value = 10 / 1000, var_units = ''mm''\<rparr>" Length "\<lparr>var_value = 3, var_units = []\<rparr>" NoUnits "(-)"] mm no
    by simp
  show "subtract \<lparr>var_value = 3, var_units = []\<rparr> \<lparr>var_value = 10 / 1000, var_units = ''mm''\<rparr>
       = Inl AssertionError"
    unfolding subtract_def
    using add_sub_other_system [of "\<lparr>var_value = 3, var_units = []\<rparr>" NoUnits "\<lparr>var_value = 10 / 1000, var_units = ''mm''\<rparr>" Length "(-)"] mm no
    by simp
  show "add \<lparr>var_value = 3 / 1000, var_units = ''mA''\<rparr> \<lparr>var_value = 10, var_units = ''A''\<rparr>
       = Inr \<lparr>var_value = 10003 / 1000, var_units = ''A''\<rparr>"
    unfolding add_def
    using add_sub_same_system [of "\<lparr>var_value = 3 / 1000, var_units = ''mA''\<rparr>" Current
        "\<lparr>var_value = 10, var_units = ''A''\<rparr>" "(+)"] mA A
    by simp
  show "numeric_value \<lparr>var_value = 10003 / 1000, var_units = ''A''\<rparr> = Inr (10003 / 1000)"
    using numeric_value_SI_units [of "10003 / 1000" Current] by simp
qed

theorem add_subtract_one_unit_system_witness:
  "unit_system_of (var_units \<lparr>var_value = 3 / 1000, var_units = ''mA''\<rparr>) = Some Current
   \<and> unit_system_of (var_units \<lparr>var_value = 40, var_units = ''V''\<rparr>) = Some Voltage
   \<and> add \<lparr>var_value = 3 / 1000, var_units = ''mA''\<rparr> \<lparr>var_value = 40, var_units = ''V''\<rparr>
       = Inl AssertionError
   \<and> subtract \<lparr>var_value = 3 / 1000, var_units = ''mA''\<rparr>
        \<lparr>var_value = 3 / 1000, var_units = ''mA''\<rparr>
       = Inr \<lparr>var_value = 0, var_units = ''mA''\<rparr>"
  using add_subtract_one_unit_system
    [of "\<lparr>var_value = 3 / 1000, var_units = ''mA''\<rparr>" Current
        "\<lparr>var_value = 40, var_units = ''V''\<rparr>" Voltage]
    add_subtract_one_unit_system
    [of "\<lparr>var_value = 3 / 1000, var_units = ''mA''\<rparr>" Current
        "\<lparr>var_value = 3 / 1000, var_units = ''mA''\<rparr>" Current]
  by (simp add: unit_system_of_def AEDT_units_def subtract_def add_sub_def Variable_def
      rescale_to_def)

lemma rescaled_numeric_value_eq:
  assumes "map_of AEDT_units u = Some (s, k, c)" and "map_of AEDT_units u' = Some (s, k', c')"
  shows "rescaled_numeric_value x u u' = Inr ((k * x + c - c') / k')"
  using assms
  by (simp add: rescaled_numeric_value_def Variable_def rescale_to_def unit_system_of_def
      numeric_value_def)

text \<open>
  C6. \<^verbatim>\<open>rescale_to\<close> to a unit of the variable's own unit system changes the unit and
  keeps the SI value, and to a unit of another system it fails. The numeric value read
  after it stands for the same quantity: taken in the new unit it gives the SI value of
  the original. In particular 4 mm is 0.004 meter, 1 rad is \<open>180 / pi\<close> deg and sixty
  times that in degmin, and 100 cel is 212 fah, under the affine map of the
  temperatures.
\<close>

theorem rescale_to_same_quantity:
  "(unit_system_of (var_units v) = Some s \<and> unit_system_of u = Some s \<longrightarrow>
      rescale_to v u = Inr (v\<lparr>var_units := u\<rparr>))
   \<and> (unit_system_of (var_units v) = Some s \<and> unit_system_of u = Some s' \<and> s \<noteq> s' \<longrightarrow>
        rescale_to v u = Inl AssertionError)
   \<and> (unit_system_of u = Some s \<and> unit_system_of u' = Some s \<longrightarrow>
        (\<exists>y w. rescaled_numeric_value x u u' = Inr y
                \<and> Variable x u = Inr w \<and> Variable y u' = Inr (w\<lparr>var_units := u'\<rparr>)))
   \<and> rescaled_numeric_value 4 ''mm'' ''mm'' = Inr 4
   \<and> rescaled_numeric_value 4 ''mm'' ''meter'' = Inr (4 / 1000)
   \<and> rescaled_numeric_value 1 ''rad'' ''deg'' = Inr (180 / pi)
   \<and> rescaled_numeric_value 1 ''rad'' ''degmin'' = Inr (60 * (180 / pi))
   \<and> rescaled_numeric_value 100 ''cel'' ''fah'' = Inr 212"
proof (intro conjI impI)
  assume "unit_system_of (var_units v) = Some s \<and> unit_system_of u = Some s"
  then show "rescale_to v u = Inr (v\<lparr>var_units := u\<rparr>)"
    by (simp add: rescale_to_def)
next
  assume "unit_system_of (var_units v) = Some s \<and> unit_system_of u = Some s' \<and> s \<noteq> s'"
  then show "rescale_to v u = Inl AssertionError"
    by (simp add: rescale_to_def)
next
  assume h: "unit_system_of u = Some s \<and> unit_system_of u' = Some s"
  then obtain k c k' c' where
    a: "map_of AEDT_units u = Some (s, k, c)" and b: "map_of AEDT_units u' = Some (s, k', c')"
    by (auto simp: unit_system_of_lookup)
  have nz: "k' \<noteq> 0" using scale_nonzero [OF b] .
  have "rescaled_numeric_value x u u' = Inr ((k * x + c - c') / k')"
    by (rule rescaled_numeric_value_eq [OF a b])
  moreover have "Variable x u = Inr \<lparr>var_value = k * x + c, var_units = u\<rparr>"
    by (simp add: Variable_def a)
  moreover have "Variable ((k * x + c - c') / k') u'
      = Inr (\<lparr>var_value = k * x + c, var_units = u\<rparr>\<lparr>var_units := u'\<rparr>)"
    using nz by (simp add: Variable_def b)
  ultimately show "\<exists>y w. rescaled_numeric_value x u u' = Inr y
                \<and> Variable x u = Inr w \<and> Variable y u' = Inr (w\<lparr>var_units := u'\<rparr>)"
    by blast
next
  show "rescaled_numeric_value 4 ''mm'' ''mm'' = Inr 4"
    by (subst rescaled_numeric_value_eq [of _ Length "1 / 1000" 0 _ "1 / 1000" 0])
       (simp_all add: AEDT_units_def)
  show "rescaled_numeric_value 4 ''mm'' ''meter'' = Inr (4 / 1000)"
    by (subst rescaled_numeric_value_eq [of _ Length "1 / 1000" 0 _ 1 0])
       (simp_all add: AEDT_units_def)
  show "rescaled_numeric_value 1 ''rad'' ''deg'' = Inr (180 / pi)"
    by (subst rescaled_numeric_value_eq [of _ Angle 1 0 _ "pi / 180" 0])
       (simp_all add: AEDT_units_def)
  show "rescaled_numeric_value 1 ''rad'' ''degmin'' = Inr (60 * (180 / pi))"
    by (subst rescaled_numeric_value_eq [of _ Angle 1 0 _ "pi / 180 / 60" 0])
       (simp_all add: AEDT_units_def)
  show "rescaled_numeric_value 100 ''cel'' ''fah'' = Inr 212"
    by (subst rescaled_numeric_value_eq
          [of _ Temperature 1 "27315 / 100" _ "5 / 9" "45967 / 180"])
       (simp_all add: AEDT_units_def)
qed

theorem rescale_to_same_quantity_witness:
  "unit_system_of ''rpm'' = Some AngularSpeed
   \<and> unit_system_of ''rev_per_sec'' = Some AngularSpeed
   \<and> rescale_to \<lparr>var_value = 400 * pi, var_units = ''rad_per_sec''\<rparr> ''rpm''
       = Inr \<lparr>var_value = 400 * pi, var_units = ''rpm''\<rparr>
   \<and> rescale_to \<lparr>var_value = 400 * pi, var_units = ''rad_per_sec''\<rparr> ''mm''
       = Inl AssertionError
   \<and> rescaled_numeric_value 12000 ''rpm'' ''rev_per_sec'' = Inr 200"
  using rescale_to_same_quantity
    [where v = "\<lparr>var_value = 400 * pi, var_units = ''rad_per_sec''\<rparr>" and s = AngularSpeed
       and u = "''rpm''" and s' = Length and u' = "''rev_per_sec''" and x = 12000]
    rescale_to_same_quantity
    [where v = "\<lparr>var_value = 400 * pi, var_units = ''rad_per_sec''\<rparr>" and s = AngularSpeed
       and u = "''mm''" and s' = Length and u' = "''rev_per_sec''" and x = 12000]
  by (simp add: unit_system_of_def AEDT_units_def rescaled_numeric_value_def Variable_def
      rescale_to_def numeric_value_def)

end
